theory Spec2Isabelle
  imports Complex_Main
begin

section \<open>JavaScript values that reach the mint form\<close>

text \<open>
  A JavaScript number is NaN, an infinity or a finite value. The finite doubles are
  rationals, and the checks below only compare a number with a constant and ask whether it
  is an integer, so a finite number is modelled by the rational it denotes.
\<close>

datatype jsnum = NaN | PosInfinity | NegInfinity | Finite rat

text \<open>A \<open>Date\<close> object holds a time value: milliseconds since the epoch, or NaN (an invalid date).\<close>

datatype jsdate = InvalidDate | TimeValue int

text \<open>
  What a field of the candidate record may hold. \<open>JOther\<close> stands for a value of any other
  type (an array, a plain object, a function).
\<close>

datatype jsval =
    JUndefined
  | JNull
  | JBoolean bool
  | JNumber jsnum
  | JString string
  | JDate jsdate
  | JOther

text \<open>
  \<open>String.prototype.trim\<close>: white space and line terminators are removed at both ends.
  Characters are the code units below 256, of which these are the white space.
\<close>

definition is_white_space :: "char \<Rightarrow> bool" where
  "is_white_space c = (c \<in> set [CHR 0x09, CHR 0x0A, CHR 0x0B, CHR 0x0C, CHR 0x0D, CHR 0x20, CHR 0xA0])"

definition trim :: "string \<Rightarrow> string" where
  "trim s = rev (dropWhile is_white_space (rev (dropWhile is_white_space s)))"

text \<open>Comparison of a number that is not NaN with a finite constant.\<close>

fun num_less :: "jsnum \<Rightarrow> rat \<Rightarrow> bool" where
  "num_less (Finite r) v = (r < v)"
| "num_less NegInfinity v = True"
| "num_less PosInfinity v = False"
| "num_less NaN v = False"

fun num_greater :: "jsnum \<Rightarrow> rat \<Rightarrow> bool" where
  "num_greater (Finite r) v = (r > v)"
| "num_greater PosInfinity v = True"
| "num_greater NegInfinity v = False"
| "num_greater NaN v = False"

text \<open>\<open>Number.isInteger\<close>.\<close>

fun is_integer :: "jsnum \<Rightarrow> bool" where
  "is_integer (Finite r) = (of_int \<lfloor>r\<rfloor> = r)"
| "is_integer _ = False"

section \<open>The validation library (zod, version 3) as far as the schema uses it\<close>

text \<open>
  An issue has the library's issue code, the path of the field it is attached to, and the
  message the schema gives for it (\<open>None\<close>: the library's default message).
\<close>

datatype issue_code = invalid_type | invalid_date | too_small | too_big | invalid_string | custom

datatype issue = Issue (issue_code: issue_code) (issue_path: "string list") (issue_message: "string option")

text \<open>
  The result of parsing a value: the issues added to the context, and the output value.
  No output (\<open>None\<close>) is the library's aborted status. A result with an output and no issue
  is valid; with an output and issues it is dirty.
\<close>

datatype 'a parsed = Parsed (issues: "issue list") (value_of: "'a option")

definition accepts :: "'a parsed \<Rightarrow> bool" where
  "accepts p = (issues p = [] \<and> value_of p \<noteq> None)"

definition INVALID :: "issue list \<Rightarrow> 'a parsed" where
  "INVALID iss = Parsed iss None"

definition OK :: "'a \<Rightarrow> 'a parsed" where
  "OK v = Parsed [] (Some v)"

subsection \<open>Strings\<close>

text \<open>
  The checks of a string schema are kept in the order the schema's methods were called.
  \<open>nonempty(m)\<close> is \<open>min(1, m)\<close>; \<open>trim()\<close> is a check too.
\<close>

datatype string_check =
    SMin nat "string option"
  | SMax nat "string option"
  | SUrl "string option"
  | STrim

definition nonempty :: "string \<Rightarrow> string_check" where
  "nonempty m = SMin 1 (Some m)"

text \<open>
  The loop over the checks of \<open>ZodString._parse\<close>: each check tests the data as it is when
  the loop reaches it, and \<open>trim\<close> replaces the data for the checks after it. The
  \<open>url\<close> check asks the platform's URL parser (\<open>new URL(data)\<close> does not throw), which is
  the parameter \<open>U\<close>.
\<close>

fun string_checks :: "(string \<Rightarrow> bool) \<Rightarrow> string list \<Rightarrow> string_check list \<Rightarrow> string \<Rightarrow> issue list \<times> string" where
  "string_checks U p [] s = ([], s)"
| "string_checks U p (SMin n m # cs) s =
     (let (iss, s') = string_checks U p cs s
      in ((if length s < n then [Issue too_small p m] else []) @ iss, s'))"
| "string_checks U p (SMax n m # cs) s =
     (let (iss, s') = string_checks U p cs s
      in ((if length s > n then [Issue too_big p m] else []) @ iss, s'))"
| "string_checks U p (SUrl m # cs) s =
     (let (iss, s') = string_checks U p cs s
      in ((if U s then [] else [Issue invalid_string p m]) @ iss, s'))"
| "string_checks U p (STrim # cs) s = string_checks U p cs (trim s)"

definition ZodString :: "(string \<Rightarrow> bool) \<Rightarrow> string_check list \<Rightarrow> string list \<Rightarrow> jsval \<Rightarrow> string parsed" where
  "ZodString U cs p v =
     (case v of
        JString s \<Rightarrow> (let (iss, s') = string_checks U p cs s in Parsed iss (Some s'))
      | _ \<Rightarrow> INVALID [Issue invalid_type p None])"

subsection \<open>Numbers\<close>

text \<open>\<open>positive()\<close> is an exclusive minimum of 0; \<open>max(n, m)\<close> is an inclusive maximum.\<close>

datatype number_check =
    NInt "string option"
  | NMin rat bool "string option"
  | NMax rat bool "string option"

definition positive :: number_check where
  "positive = NMin 0 False None"

fun run_number_check :: "string list \<Rightarrow> number_check \<Rightarrow> jsnum \<Rightarrow> issue list" where
  "run_number_check p (NInt m) x = (if is_integer x then [] else [Issue invalid_type p m])"
| "run_number_check p (NMin v inclusive m) x =
     (if (if inclusive then num_less x v else \<not> num_greater x v) then [Issue too_small p m] else [])"
| "run_number_check p (NMax v inclusive m) x =
     (if (if inclusive then num_greater x v else \<not> num_less x v) then [Issue too_big p m] else [])"

text \<open>NaN is not of the library's type \<open>number\<close>; the infinities are.\<close>

definition ZodNumber :: "number_check list \<Rightarrow> string list \<Rightarrow> jsval \<Rightarrow> jsnum parsed" where
  "ZodNumber cs p v =
     (case v of
        JNumber NaN \<Rightarrow> INVALID [Issue invalid_type p None]
      | JNumber x \<Rightarrow> Parsed (concat (map (\<lambda>c. run_number_check p c x) cs)) (Some x)
      | _ \<Rightarrow> INVALID [Issue invalid_type p None])"

subsection \<open>Booleans and dates\<close>

definition ZodBoolean :: "string list \<Rightarrow> jsval \<Rightarrow> bool parsed" where
  "ZodBoolean p v =
     (case v of
        JBoolean b \<Rightarrow> OK b
      | _ \<Rightarrow> INVALID [Issue invalid_type p None])"

datatype date_check = DMin int "string option"

fun run_date_check :: "string list \<Rightarrow> date_check \<Rightarrow> int \<Rightarrow> issue list" where
  "run_date_check p (DMin v m) t = (if t < v then [Issue too_small p m] else [])"

text \<open>The output of a date schema is a valid date, given by its time value.\<close>

definition ZodDate :: "date_check list \<Rightarrow> string list \<Rightarrow> jsval \<Rightarrow> int parsed" where
  "ZodDate cs p v =
     (case v of
        JDate InvalidDate \<Rightarrow> INVALID [Issue invalid_date p None]
      | JDate (TimeValue t) \<Rightarrow> Parsed (concat (map (\<lambda>c. run_date_check p c t) cs)) (Some t)
      | _ \<Rightarrow> INVALID [Issue invalid_type p None])"

subsection \<open>Combinators\<close>

text \<open>\<open>nullable()\<close>: null passes with no check; any other value goes to the inner schema.\<close>

definition nullable :: "(string list \<Rightarrow> jsval \<Rightarrow> 'a parsed) \<Rightarrow> string list \<Rightarrow> jsval \<Rightarrow> 'a option parsed" where
  "nullable inner p v =
     (case v of
        JNull \<Rightarrow> OK None
      | _ \<Rightarrow> (case inner p v of Parsed iss out \<Rightarrow> Parsed iss (map_option Some out)))"

text \<open>
  \<open>transform(f)\<close>: an aborted inner result is returned as it is; otherwise the callback
  gets the inner output and the context, to which it may add issues.
\<close>

definition transform :: "(string list \<Rightarrow> 'a \<Rightarrow> issue list \<times> 'b) \<Rightarrow> (string list \<Rightarrow> jsval \<Rightarrow> 'a parsed)
    \<Rightarrow> string list \<Rightarrow> jsval \<Rightarrow> 'b parsed" where
  "transform f inner p v =
     (case inner p v of
        Parsed iss None \<Rightarrow> INVALID iss
      | Parsed iss (Some x) \<Rightarrow> (let (js, y) = f p x in Parsed (iss @ js) (Some y)))"

text \<open>
  \<open>refine(check, {path, message})\<close>: an aborted inner result is returned as it is; otherwise
  the check runs on the inner output, also when that already carries issues, and a failed
  check adds a custom issue at the given path.
\<close>

definition refine :: "('a \<Rightarrow> bool) \<Rightarrow> string list \<Rightarrow> string \<Rightarrow> 'a parsed \<Rightarrow> 'a parsed" where
  "refine check p m inner =
     (case inner of
        Parsed iss None \<Rightarrow> INVALID iss
      | Parsed iss (Some x) \<Rightarrow>
          Parsed (iss @ (if check x then [] else [Issue custom p (Some m)])) (Some x))"

text \<open>
  An object schema parses its keys in the order of the shape and merges the results: the
  issues of all keys are kept, and one aborted key aborts the object. \<open>field\<close> adds one key
  to the object under construction.
\<close>

definition field :: "('a \<Rightarrow> 'b) parsed \<Rightarrow> 'a parsed \<Rightarrow> 'b parsed" where
  "field obj x =
     Parsed (issues obj @ issues x)
       (case (value_of obj, value_of x) of
          (Some f, Some a) \<Rightarrow> Some (f a)
        | _ \<Rightarrow> None)"

text \<open>
  \<open>intersection(left, right)\<close>: both sides parse the same input; one aborted side aborts the
  whole, otherwise the two outputs are merged by \<open>merge\<close>.
\<close>

definition intersection :: "('a \<Rightarrow> 'b \<Rightarrow> 'c) \<Rightarrow> 'a parsed \<Rightarrow> 'b parsed \<Rightarrow> 'c parsed" where
  "intersection merge left right =
     Parsed (issues left @ issues right)
       (case (value_of left, value_of right) of
          (Some a, Some b) \<Rightarrow> Some (merge a b)
        | _ \<Rightarrow> None)"

section \<open>The schema of the mint form\<close>

text \<open>
  The record of the form. Before validation every field holds a JavaScript value; the
  output of the schema (\<open>MintFormValues\<close>) has typed fields.
\<close>

record ('s, 'n, 'b, 'd) mint_form =
  title :: 's
  description :: 's
  location :: 's
  url :: 's
  tokenCount :: 'n
  isPublic :: 'b
  dateStart :: 'd
  dateEnd :: 'd

type_synonym candidate = "(jsval, jsval, jsval, jsval) mint_form"

type_synonym MintFormValues = "(string, jsnum, bool, int option) mint_form"

text \<open>\<open>schemaCommon\<close>: its output lists title, description, location, url, tokenCount, isPublic.\<close>

type_synonym common_values = "string \<times> string \<times> string \<times> string \<times> jsnum \<times> bool"

definition schemaCommon :: "(string \<Rightarrow> bool) \<Rightarrow> candidate \<Rightarrow> common_values parsed" where
  "schemaCommon U r =
     field (field (field (field (field (field
       (OK (\<lambda>t d l u n b. (t, d, l, u, n, b)))
       (ZodString U
          [nonempty ''Title is required'',
           SMax 256 (Some ''Title must be less than 256 characters''),
           STrim]
          [''title''] (title r)))
       (ZodString U
          [nonempty ''Description is required'',
           SMax 10000 (Some ''Description must be less than 10000 characters'')]
          [''description''] (description r)))
       (ZodString U
          [nonempty ''Location is required'',
           SMax 256 (Some ''Location must be less than 256 characters'')]
          [''location''] (location r)))
       (ZodString U
          [nonempty ''URL is required'', SUrl (Some ''URL is invalid''), STrim]
          [''url''] (url r)))
       (ZodNumber
          [NInt None, positive,
           NMax 200 True (Some ''Token count must be less than or equal to 200'')]
          [''tokenCount''] (tokenCount r)))
       (ZodBoolean [''isPublic''] (isPublic r))"

text \<open>
  \<open>new Date("1900-01-01")\<close>: midnight UTC of 1 January 1900, which is 25567 days before the
  epoch.
\<close>

definition date_1900_01_01 :: int where
  "date_1900_01_01 = - 2208988800000"

text \<open>The callback of the two \<open>transform\<close> calls: a null date gets a custom issue.\<close>

definition required_date :: "string \<Rightarrow> string list \<Rightarrow> int option \<Rightarrow> issue list \<times> int option" where
  "required_date m p val = ((if val = None then [Issue custom p (Some m)] else []), val)"

text \<open>The check of \<open>refine\<close>; a \<open>Date\<close> object is truthy, null is not.\<close>

definition dates_in_order :: "int option \<times> int option \<Rightarrow> bool" where
  "dates_in_order data =
     (case data of
        (Some dStart, Some dEnd) \<Rightarrow> dEnd \<ge> dStart
      | _ \<Rightarrow> False)"

definition schemaDates :: "candidate \<Rightarrow> (int option \<times> int option) parsed" where
  "schemaDates r =
     refine dates_in_order [''dateEnd''] ''End Date must be later than Start Date''
       (field (field
          (OK (\<lambda>s e. (s, e)))
          (transform (required_date ''Start Date is required'')
             (nullable (ZodDate [DMin date_1900_01_01 (Some ''Date is too far back'')]))
             [''dateStart''] (dateStart r)))
          (transform (required_date ''End Date is required'')
             (nullable (ZodDate [DMin date_1900_01_01 (Some ''Date is too far back'')]))
             [''dateEnd''] (dateEnd r)))"

definition merge_values :: "common_values \<Rightarrow> int option \<times> int option \<Rightarrow> MintFormValues" where
  "merge_values c d =
     (case (c, d) of
        ((t, de, l, u, n, b), (s, e)) \<Rightarrow>
          \<lparr>title = t, description = de, location = l, url = u, tokenCount = n, isPublic = b,
           dateStart = s, dateEnd = e\<rparr>)"

definition schema :: "(string \<Rightarrow> bool) \<Rightarrow> candidate \<Rightarrow> MintFormValues parsed" where
  "schema U r = intersection merge_values (schemaCommon U r) (schemaDates r)"

subsection \<open>The rules of the specification\<close>

text \<open>
  The per-field rules of the specification. A string field holds a string that is not
  empty and within its maximum length; the url holds a string that is not empty and that
  the URL parser accepts. The specification has title, location and url trimmed before
  they are checked; \<open>trimmed\<close> says whether the rule trims its string first.
\<close>

definition string_rule :: "bool \<Rightarrow> nat \<Rightarrow> jsval \<Rightarrow> bool" where
  "string_rule trimmed n v =
     (case v of
        JString s \<Rightarrow> (let s' = (if trimmed then trim s else s) in s' \<noteq> [] \<and> length s' \<le> n)
      | _ \<Rightarrow> False)"

definition url_rule :: "bool \<Rightarrow> (string \<Rightarrow> bool) \<Rightarrow> jsval \<Rightarrow> bool" where
  "url_rule trimmed U v =
     (case v of
        JString s \<Rightarrow> (let s' = (if trimmed then trim s else s) in s' \<noteq> [] \<and> U s')
      | _ \<Rightarrow> False)"

text \<open>
  The token count is an integer from 1 to 200; isPublic is a boolean; a date is present,
  valid and not before 1 January 1900; the end date is not before the start date.
\<close>

definition spec_tokenCount_rule :: "jsval \<Rightarrow> bool" where
  "spec_tokenCount_rule v =
     (case v of
        JNumber (Finite x) \<Rightarrow> of_int \<lfloor>x\<rfloor> = x \<and> 1 \<le> x \<and> x \<le> 200
      | _ \<Rightarrow> False)"

definition spec_boolean_rule :: "jsval \<Rightarrow> bool" where
  "spec_boolean_rule v = (case v of JBoolean b \<Rightarrow> True | _ \<Rightarrow> False)"

definition spec_date_rule :: "jsval \<Rightarrow> bool" where
  "spec_date_rule v = (case v of JDate (TimeValue t) \<Rightarrow> date_1900_01_01 \<le> t | _ \<Rightarrow> False)"

definition spec_order_rule :: "jsval \<Rightarrow> jsval \<Rightarrow> bool" where
  "spec_order_rule dStart dEnd =
     (case (dStart, dEnd) of
        (JDate (TimeValue s), JDate (TimeValue e)) \<Rightarrow> s \<le> e
      | _ \<Rightarrow> False)"

text \<open>
  All rules together; the three flags say whether the title, the location and the url are
  trimmed before they are checked. The description is never trimmed.
\<close>

definition rules_hold :: "bool \<Rightarrow> bool \<Rightarrow> bool \<Rightarrow> (string \<Rightarrow> bool) \<Rightarrow> candidate \<Rightarrow> bool" where
  "rules_hold trimTitle trimLocation trimUrl U r =
     (string_rule trimTitle 256 (title r) \<and>
      string_rule False 10000 (description r) \<and>
      string_rule trimLocation 256 (location r) \<and>
      url_rule trimUrl U (url r) \<and>
      spec_tokenCount_rule (tokenCount r) \<and>
      spec_boolean_rule (isPublic r) \<and>
      spec_date_rule (dateStart r) \<and>
      spec_date_rule (dateEnd r) \<and>
      spec_order_rule (dateStart r) (dateEnd r))"

text \<open>The rules as section 4.1 of the specification has them: all three are trimmed.\<close>

definition spec_valid :: "(string \<Rightarrow> bool) \<Rightarrow> candidate \<Rightarrow> bool" where
  "spec_valid U r = rules_hold True True True U r"

text \<open>The rules with the location checked as it is given.\<close>

definition amended_valid :: "(string \<Rightarrow> bool) \<Rightarrow> candidate \<Rightarrow> bool" where
  "amended_valid U r = rules_hold True False True U r"

text \<open>A field that holds a string holds it without white space at either end.\<close>

definition no_surrounding_space :: "jsval \<Rightarrow> bool" where
  "no_surrounding_space v = (case v of JString s \<Rightarrow> trim s = s | _ \<Rightarrow> True)"

text \<open>The issues attached to one field, in the order they were added.\<close>

definition issues_at :: "string list \<Rightarrow> 'a parsed \<Rightarrow> issue list" where
  "issues_at p r = filter (\<lambda>i. issue_path i = p) (issues r)"

section \<open>The mint dialog\<close>

subsection \<open>What the component consumes\<close>

text \<open>
  Modelled from the spec: the providers behind \<open>useWeb3()\<close> and \<open>useAuth()\<close> (the modules
  \<open>connectors/context\<close> and \<open>components/AuthContext\<close>) are not among the sources. The
  specification gives the account and the network identifier as present or absent, the
  authentication as a boolean and a session token. The component only tests \<open>account\<close>,
  \<open>networkId\<close> and \<open>jwt\<close> for truthiness, so each is an option: \<open>None\<close> stands for every
  falsy value a provider may hand over (undefined, null, an empty string, 0), \<open>Some\<close> for a
  value that is present.
\<close>

record providers =
  account :: "string option"
  networkId :: "nat option"
  isAuthenticated :: bool
  jwt :: "string option"

text \<open>
  Modelled from the spec: the enumeration \<open>DialogIdentifier\<close> (module \<open>types\<close>) and the atom
  \<open>activeDialogAtom\<close> (module \<open>states/atoms\<close>) are not among the sources. The specification
  has the shared signal hold either nothing or the identifier of the dialog to show: here
  this dialog's identifier, or that of another dialog. The component reads the \<open>type\<close> of
  the object in the atom and writes the empty object, which is \<open>None\<close>.
\<close>

datatype DialogIdentifier = DIALOG_MINT | DIALOG_OTHER

text \<open>The body of the create-event call, as \<open>onSubmit\<close> builds it.\<close>

record create_request =
  networkId' :: nat
  tokenCount' :: jsnum
  title' :: string
  description' :: string
  location' :: string
  imageUrl :: string
  dateStart' :: "int option"
  dateEnd' :: "int option"
  isManaged :: bool

text \<open>
  Modelled from the spec: \<open>API.event.create\<close> (module \<open>apis\<close>) is not among the sources. The
  specification gives its outcomes: a success response with an event identifier; a
  structured error payload with an \<open>error\<close> message field; a failure of the transport, which
  exposes a message. The event identifier is a number, as in the specification's example.
  The handler catches whatever the call throws and tells an axios error from any other
  value, so the thrown values are:
  \<^item> an axios error, with its message and with a \<open>response\<close> unless no response arrived; the
    data of a response are null or undefined (\<open>NullData\<close>), or any other value, given by
    the rendering of its \<open>error\<close> property (\<open>None\<close>: it has none, the property is undefined);
  \<^item> another value with a \<open>message\<close>, such as an \<open>Error\<close>, given by the rendering of the
    message;
  \<^item> another value without a \<open>message\<close> (\<open>NoMessage\<close>);
  \<^item> null or undefined (\<open>Nullish\<close>).
\<close>

datatype response_data = NullData | ResponseData "string option"

datatype thrown =
    AxiosError "response_data option" string
  | Error string
  | NoMessage
  | Nullish

text \<open>Reading a property of null or of undefined throws a \<open>TypeError\<close>.\<close>

datatype js_error = TypeError

datatype settlement = Resolved nat | Rejected thrown

datatype variant = success | error

subsection \<open>Template literals\<close>

text \<open>The decimal digits of a natural number, as \<open>${n}\<close> renders them.\<close>

fun show_nat :: "nat \<Rightarrow> string" where
  "show_nat n =
     (if n < 10 then [''0123456789'' ! n]
      else show_nat (n div 10) @ [''0123456789'' ! (n mod 10)])"

text \<open>A string renders as itself, \<open>undefined\<close> as the word.\<close>

definition show_string_or_undefined :: "string option \<Rightarrow> string" where
  "show_string_or_undefined v = (case v of None \<Rightarrow> ''undefined'' | Some s \<Rightarrow> s)"

subsection \<open>State and handlers\<close>

text \<open>
  The state of the component: the values of the form, the loading flag and the shared
  active-dialog atom; and, as traces, the create-event calls made so far (each with the
  session token it was made with) and the notifications shown so far.
\<close>

record dialog_state =
  form_values :: candidate
  loading :: bool
  activeDialog :: "DialogIdentifier option"
  calls :: "(string \<times> create_request) list"
  snackbar :: "(string \<times> variant) list"

definition defaultValues :: candidate where
  "defaultValues =
     \<lparr>title = JString '''', description = JString '''', location = JString '''',
      url = JString '''', tokenCount = JUndefined, isPublic = JBoolean False,
      dateStart = JNull, dateEnd = JNull\<rparr>"

text \<open>The effect at lines 141 to 143: the dialog is open when the atom names it.\<close>

definition is_open :: "dialog_state \<Rightarrow> bool" where
  "is_open st = (activeDialog st = Some DIALOG_MINT)"

definition setLoading :: "bool \<Rightarrow> dialog_state \<Rightarrow> dialog_state" where
  "setLoading b st = st\<lparr>loading := b\<rparr>"

definition setActiveDialog :: "DialogIdentifier option \<Rightarrow> dialog_state \<Rightarrow> dialog_state" where
  "setActiveDialog d st = st\<lparr>activeDialog := d\<rparr>"

definition enqueueSnackbar :: "string \<Rightarrow> variant \<Rightarrow> dialog_state \<Rightarrow> dialog_state" where
  "enqueueSnackbar m v st = st\<lparr>snackbar := snackbar st @ [(m, v)]\<rparr>"

definition reset :: "dialog_state \<Rightarrow> dialog_state" where
  "reset st = st\<lparr>form_values := defaultValues\<rparr>"

definition handleClose :: "string option \<Rightarrow> dialog_state \<Rightarrow> dialog_state" where
  "handleClose reason st =
     (if reason = Some ''backdropClick'' then st
      else setActiveDialog None st)"

definition handleCancel :: "dialog_state \<Rightarrow> dialog_state" where
  "handleCancel st = setActiveDialog None (reset st)"

subsection \<open>Submitting\<close>

text \<open>
  \<open>onSubmit\<close> suspends at the \<open>await\<close>. \<open>onSubmit_call\<close> is the part before it, which either
  issues the call and waits for it (\<open>Awaiting\<close>, with the token and the body of the call), or
  (the guard fails) runs to the end. \<open>onSubmit_settle\<close> is the part after it: it gives the
  state when the handler is done, the finally block having run on every path.
\<close>

datatype phase = Awaiting string create_request dialog_state | Settled dialog_state

fun phase_state :: "phase \<Rightarrow> dialog_state" where
  "phase_state (Awaiting j body st) = st"
| "phase_state (Settled st) = st"

definition finally_block :: "dialog_state \<Rightarrow> dialog_state" where
  "finally_block st = setActiveDialog None (setLoading False st)"

text \<open>
  The expression \<open>err.response?.data.error\<close> of line 181: the optional chain stops at an
  absent response and gives undefined; with a response, the \<open>error\<close> property of its data
  is read.
\<close>

definition response_error :: "response_data option \<Rightarrow> js_error + string option" where
  "response_error resp =
     (case resp of
        None \<Rightarrow> Inr None
      | Some NullData \<Rightarrow> Inl TypeError
      | Some (ResponseData e) \<Rightarrow> Inr e)"

text \<open>
  The catch block (lines 178 to 188). Its template literals are evaluated before
  \<open>enqueueSnackbar\<close> is called, so an error thrown by them leaves the block with no
  notification shown.
\<close>

definition catch_block :: "thrown \<Rightarrow> dialog_state \<Rightarrow> js_error + dialog_state" where
  "catch_block err st =
     (case err of
        AxiosError resp m \<Rightarrow>
          (case response_error resp of
             Inl e \<Rightarrow> Inl e
           | Inr v \<Rightarrow>
               Inr (enqueueSnackbar (''Mint failed: '' @ show_string_or_undefined v) error st))
      | Error m \<Rightarrow> Inr (enqueueSnackbar (''Mint failed: '' @ m) error st)
      | NoMessage \<Rightarrow>
          Inr (enqueueSnackbar (''Mint failed: '' @ show_string_or_undefined None) error st)
      | Nullish \<Rightarrow> Inl TypeError)"

text \<open>The object literal of lines 161 to 171.\<close>

definition request_body :: "nat \<Rightarrow> MintFormValues \<Rightarrow> create_request" where
  "request_body n values =
     \<lparr>networkId' = n,
      tokenCount' = tokenCount values,
      title' = title values,
      description' = description values,
      location' = location values,
      imageUrl = url values,
      dateStart' = dateStart values,
      dateEnd' = dateEnd values,
      isManaged = (\<not> isPublic values)\<rparr>"

definition onSubmit_call :: "providers \<Rightarrow> MintFormValues \<Rightarrow> dialog_state \<Rightarrow> phase" where
  "onSubmit_call env values st =
     (let st = setLoading True st in
      case (account env, networkId env, jwt env) of
        (Some a, Some n, Some j) \<Rightarrow>
          Awaiting j (request_body n values)
            (st\<lparr>calls := calls st @ [(j, request_body n values)]\<rparr>)
      | _ \<Rightarrow> Settled (finally_block st))"

definition onSubmit_settle :: "settlement \<Rightarrow> dialog_state \<Rightarrow> dialog_state" where
  "onSubmit_settle outcome st =
     (case outcome of
        Resolved eventId \<Rightarrow>
          finally_block (reset (enqueueSnackbar (''Mint successful: Event #'' @ show_nat eventId) success st))
      | Rejected err \<Rightarrow>
          (case catch_block err st of
             Inr st' \<Rightarrow> finally_block st'
           | Inl e \<Rightarrow> finally_block st))"

text \<open>
  The error that leaves the handler, if any: the one the catch block threw. The finally
  block has run by then.
\<close>

definition onSubmit_uncaught :: "settlement \<Rightarrow> dialog_state \<Rightarrow> js_error option" where
  "onSubmit_uncaught outcome st =
     (case outcome of
        Resolved eventId \<Rightarrow> None
      | Rejected err \<Rightarrow> (case catch_block err st of Inr st' \<Rightarrow> None | Inl e \<Rightarrow> Some e))"

text \<open>The whole handler, with the remote service as a function of the token and the body.\<close>

definition onSubmit :: "providers \<Rightarrow> (string \<Rightarrow> create_request \<Rightarrow> settlement) \<Rightarrow> MintFormValues
    \<Rightarrow> dialog_state \<Rightarrow> dialog_state" where
  "onSubmit env api values st =
     (case onSubmit_call env values st of
        Awaiting j body st' \<Rightarrow> onSubmit_settle (api j body) st'
      | Settled st' \<Rightarrow> st')"

text \<open>
  \<open>handleSubmit(onValid)\<close> of the form library (react-hook-form): the resolver runs the
  schema on the values of the form; the handler is called, with the output of the schema,
  only when the schema accepts. \<open>None\<close>: the handler was not called.
\<close>

definition handleSubmit :: "(string \<Rightarrow> bool) \<Rightarrow> (MintFormValues \<Rightarrow> dialog_state \<Rightarrow> 'r) \<Rightarrow> dialog_state \<Rightarrow> 'r option" where
  "handleSubmit U onValid st =
     (case schema U (form_values st) of
        Parsed [] (Some values) \<Rightarrow> Some (onValid values st)
      | _ \<Rightarrow> None)"

text \<open>\<open>formState.isValid\<close>: the schema accepts the current values.\<close>

definition isValid :: "(string \<Rightarrow> bool) \<Rightarrow> dialog_state \<Rightarrow> bool" where
  "isValid U st = accepts (schema U (form_values st))"

subsection \<open>What is rendered\<close>

text \<open>The \<open>disabled\<close> property of the Create button.\<close>

definition create_disabled :: "(string \<Rightarrow> bool) \<Rightarrow> providers \<Rightarrow> dialog_state \<Rightarrow> bool" where
  "create_disabled U env st =
     (loading st \<or> \<not> (account env \<noteq> None) \<or> \<not> isValid U st \<or> \<not> isAuthenticated env)"

text \<open>The dialog is rendered with the property \<open>disableEscapeKeyDown\<close>.\<close>

definition disableEscapeKeyDown :: bool where
  "disableEscapeKeyDown = True"

text \<open>
  What the user can do to the rendered dialog (lines 195 to 383). A disabled control does
  not call its handler. The dialog of the component library (MUI) calls \<open>onClose\<close> with the
  reason \<open>backdropClick\<close> for a click outside it and, unless \<open>disableEscapeKeyDown\<close> is set,
  with the reason \<open>escapeKeyDown\<close> for the escape key. The close icon calls \<open>handleClose\<close>
  with the click event alone, so without a reason. The Create button starts
  \<open>handleSubmit(onSubmit)\<close>, which runs up to the \<open>await\<close>. An edit of a field changes the
  values of the form.
\<close>

datatype user_event =
    EscapeKey
  | BackdropClick
  | CloseIcon
  | CancelButton
  | CreateButton
  | EditField "candidate \<Rightarrow> candidate"

definition user_step :: "(string \<Rightarrow> bool) \<Rightarrow> providers \<Rightarrow> user_event \<Rightarrow> dialog_state \<Rightarrow> dialog_state" where
  "user_step U env ev st =
     (case ev of
        EscapeKey \<Rightarrow>
          if disableEscapeKeyDown then st else handleClose (Some ''escapeKeyDown'') st
      | BackdropClick \<Rightarrow> handleClose (Some ''backdropClick'') st
      | CloseIcon \<Rightarrow> if loading st then st else handleClose None st
      | CancelButton \<Rightarrow> if loading st then st else handleCancel st
      | CreateButton \<Rightarrow>
          if create_disabled U env st then st
          else (case handleSubmit U (onSubmit_call env) st of
                  Some ph \<Rightarrow> phase_state ph
                | None \<Rightarrow> st)
      | EditField f \<Rightarrow>
          if loading st then st else st\<lparr>form_values := f (form_values st)\<rparr>)"

subsection \<open>Values for the worked examples\<close>

text \<open>
  A URL parser that accepts one URL, which the platform's parser accepts too, and no other
  string.
\<close>

definition example_parser :: "string \<Rightarrow> bool" where
  "example_parser s = (s = ''https://example.org/poap.png'')"

definition example_form :: candidate where
  "example_form =
     \<lparr>title = JString ''Launch'', description = JString ''A party'', location = JString ''Berlin'',
      url = JString ''https://example.org/poap.png'', tokenCount = JNumber (Finite 200),
      isPublic = JBoolean True, dateStart = JDate (TimeValue 1700000000000),
      dateEnd = JDate (TimeValue 1700000000000)\<rparr>"

definition example_values :: MintFormValues where
  "example_values =
     \<lparr>title = ''Launch'', description = ''A party'', location = ''Berlin'',
      url = ''https://example.org/poap.png'', tokenCount = Finite 200,
      isPublic = True, dateStart = Some 1700000000000,
      dateEnd = Some 1700000000000\<rparr>"

definition example_state :: dialog_state where
  "example_state =
     \<lparr>form_values = example_form, loading = False, activeDialog = Some DIALOG_MINT,
      calls = [], snackbar = []\<rparr>"

definition example_providers :: providers where
  "example_providers =
     \<lparr>account = Some ''0xA1'', networkId = Some 5, isAuthenticated = True, jwt = Some ''token''\<rparr>"

text \<open>
  Four services: one that creates event 42, one that answers with an error payload, one
  that cannot be reached (the axios error has no response), and one that answers an error
  status with the body \<open>null\<close>.
\<close>

definition service_creates :: "string \<Rightarrow> create_request \<Rightarrow> settlement" where
  "service_creates j body = Resolved 42"

definition service_refuses :: "string \<Rightarrow> create_request \<Rightarrow> settlement" where
  "service_refuses j body =
     Rejected (AxiosError (Some (ResponseData (Some ''limit exceeded'')))
       ''Request failed with status code 400'')"

definition service_unreachable :: "string \<Rightarrow> create_request \<Rightarrow> settlement" where
  "service_unreachable j body = Rejected (AxiosError None ''Network Error'')"

definition service_null_data :: "string \<Rightarrow> create_request \<Rightarrow> settlement" where
  "service_null_data j body =
     Rejected (AxiosError (Some NullData) ''Request failed with status code 500'')"

section \<open>Properties of the schema\<close>

subsection \<open>When a result is accepted\<close>

lemma accepts_OK: "accepts (OK f)"
  by (simp add: accepts_def OK_def)

lemma accepts_field: "accepts (field obj x) \<longleftrightarrow> accepts obj \<and> accepts x"
  by (auto simp: accepts_def field_def split: option.splits)

lemma accepts_intersection: "accepts (intersection m l r) \<longleftrightarrow> accepts l \<and> accepts r"
  by (auto simp: accepts_def intersection_def split: option.splits)

lemma accepts_refine:
  "accepts (refine c p m inner) \<longleftrightarrow> accepts inner \<and> (\<forall>x. value_of inner = Some x \<longrightarrow> c x)"
  by (cases inner) (auto simp: accepts_def refine_def INVALID_def split: option.splits)

lemma accepts_trimmed_string:
  "accepts (ZodString U [nonempty m1, SMax n m2, STrim] p v) \<longleftrightarrow> string_rule False n v"
  by (cases v) (auto simp: accepts_def ZodString_def nonempty_def string_rule_def INVALID_def)

lemma accepts_plain_string:
  "accepts (ZodString U [nonempty m1, SMax n m2] p v) \<longleftrightarrow> string_rule False n v"
  by (cases v) (auto simp: accepts_def ZodString_def nonempty_def string_rule_def INVALID_def)

lemma accepts_url_string:
  "accepts (ZodString U [nonempty m1, SUrl m2, STrim] p v) \<longleftrightarrow> url_rule False U v"
  by (cases v) (auto simp: accepts_def ZodString_def nonempty_def url_rule_def INVALID_def)

text \<open>For an integer, being positive is being at least 1.\<close>

lemma positive_integer: "of_int \<lfloor>x\<rfloor> = (x::rat) \<Longrightarrow> 0 < x \<longleftrightarrow> 1 \<le> x"
proof -
  assume h: "of_int \<lfloor>x\<rfloor> = x"
  have "0 < (of_int \<lfloor>x\<rfloor> :: rat) \<longleftrightarrow> 1 \<le> (of_int \<lfloor>x\<rfloor> :: rat)"
    by (simp only: of_int_0_less_iff of_int_1_le_iff) arith
  then show ?thesis using h by simp
qed

lemma accepts_tokenCount:
  "accepts (ZodNumber [NInt m1, positive, NMax 200 True m2] p v) \<longleftrightarrow> spec_tokenCount_rule v"
proof (cases v)
  case (JNumber x)
  then show ?thesis
    by (cases x)
      (auto simp: accepts_def ZodNumber_def positive_def spec_tokenCount_rule_def INVALID_def
        positive_integer)
qed (simp_all add: accepts_def ZodNumber_def spec_tokenCount_rule_def INVALID_def)

lemma accepts_isPublic: "accepts (ZodBoolean p v) \<longleftrightarrow> spec_boolean_rule v"
  by (cases v) (auto simp: accepts_def ZodBoolean_def OK_def spec_boolean_rule_def INVALID_def)

text \<open>The result of a date field, by the kind of value it holds.\<close>

lemma date_field:
  "transform (required_date m) (nullable (ZodDate [DMin d m'])) p v =
     (case v of
        JNull \<Rightarrow> Parsed [Issue custom p (Some m)] (Some None)
      | JDate InvalidDate \<Rightarrow> Parsed [Issue invalid_date p None] None
      | JDate (TimeValue t) \<Rightarrow>
          Parsed (if t < d then [Issue too_small p m'] else []) (Some (Some t))
      | _ \<Rightarrow> Parsed [Issue invalid_type p None] None)"
  by (simp add: transform_def nullable_def ZodDate_def required_date_def OK_def INVALID_def
      split: jsval.splits jsdate.splits)

lemma accepts_date:
  "accepts (transform (required_date m) (nullable (ZodDate [DMin date_1900_01_01 m'])) p v)
     \<longleftrightarrow> spec_date_rule v"
  by (auto simp: date_field accepts_def spec_date_rule_def split: jsval.splits jsdate.splits)

text \<open>The bound of the dates: 70 years of 365 days and 17 leap days before the epoch.\<close>

lemma date_1900_01_01_days: "date_1900_01_01 = - ((70 * 365 + 17) * 86400000)"
  by (simp add: date_1900_01_01_def)

lemma accepts_schemaCommon:
  "accepts (schemaCommon U r) \<longleftrightarrow>
     string_rule False 256 (title r) \<and> string_rule False 10000 (description r) \<and>
     string_rule False 256 (location r) \<and> url_rule False U (url r) \<and>
     spec_tokenCount_rule (tokenCount r) \<and> spec_boolean_rule (isPublic r)"
  unfolding schemaCommon_def
  by (simp only: accepts_field accepts_OK accepts_trimmed_string accepts_plain_string
      accepts_url_string accepts_tokenCount accepts_isPublic simp_thms conj_assoc)

lemma accepts_schemaDates:
  "accepts (schemaDates r) \<longleftrightarrow>
     spec_date_rule (dateStart r) \<and> spec_date_rule (dateEnd r) \<and>
     spec_order_rule (dateStart r) (dateEnd r)"
  unfolding schemaDates_def accepts_refine accepts_field accepts_date
  by (auto simp: accepts_def date_field field_def OK_def dates_in_order_def spec_date_rule_def
      spec_order_rule_def split: jsval.splits jsdate.splits)

lemma accepts_schema: "accepts (schema U r) \<longleftrightarrow> accepts (schemaCommon U r) \<and> accepts (schemaDates r)"
  by (simp add: schema_def accepts_intersection)

lemma trim_spaces: "trim ''   '' = []"
  by (simp add: trim_def is_white_space_def)

lemma trim_example_url: "trim ''https://example.org/poap.png'' = ''https://example.org/poap.png''"
  by (simp add: trim_def is_white_space_def)

lemma trim_example_title: "trim ''Launch'' = ''Launch''"
  by (simp add: trim_def is_white_space_def)

lemma trim_example_location: "trim ''Berlin'' = ''Berlin''"
  by (simp add: trim_def is_white_space_def)

text \<open>The code checks every string as it is given.\<close>

lemma accepts_schema_untrimmed: "accepts (schema U r) \<longleftrightarrow> rules_hold False False False U r"
  by (simp add: accepts_schema accepts_schemaCommon accepts_schemaDates rules_hold_def)

text \<open>On a string without surrounding white space, trimming first makes no difference.\<close>

lemma string_rule_no_space: "no_surrounding_space v \<Longrightarrow> string_rule True n v = string_rule False n v"
  by (cases v) (simp_all add: string_rule_def no_surrounding_space_def)

lemma url_rule_no_space: "no_surrounding_space v \<Longrightarrow> url_rule True U v = url_rule False U v"
  by (cases v) (simp_all add: url_rule_def no_surrounding_space_def)

lemma example_rules: "rules_hold trimTitle trimLocation trimUrl example_parser example_form"
  by (simp add: rules_hold_def example_form_def example_parser_def string_rule_def
      url_rule_def spec_tokenCount_rule_def spec_boolean_rule_def spec_date_rule_def
      spec_order_rule_def date_1900_01_01_def trim_example_title trim_example_location
      trim_example_url)

lemma spec_valid_example: "spec_valid example_parser example_form"
  by (simp add: spec_valid_def example_rules)

lemma accepts_blank_location:
  "accepts (schema example_parser (example_form\<lparr>location := JString ''   ''\<rparr>))"
  using example_rules [of False False False]
  by (simp add: accepts_schema_untrimmed rules_hold_def string_rule_def)

text \<open>
  Claim C1, as the code has it. For a candidate record whose title and url carry no white
  space at either end, the schema accepts the record exactly when every per-field rule of
  the specification holds, with the location checked as it is given (it is not trimmed),
  and the end date is not before the start date; for such a record a token count of 1 or
  of 200 is accepted whenever the other fields admit a valid token count at all. A token
  count of 0 or of 201 is rejected whatever the other fields hold.
\<close>

theorem schema_accepts_iff_amended_rules:
  "(no_surrounding_space (title r) \<and> no_surrounding_space (url r) \<longrightarrow>
      (accepts (schema U r) \<longleftrightarrow> amended_valid U r) \<and>
      ((\<exists>n. amended_valid U (r\<lparr>tokenCount := n\<rparr>)) \<longrightarrow>
         accepts (schema U (r\<lparr>tokenCount := JNumber (Finite 1)\<rparr>)) \<and>
         accepts (schema U (r\<lparr>tokenCount := JNumber (Finite 200)\<rparr>)))) \<and>
   \<not> accepts (schema U (r\<lparr>tokenCount := JNumber (Finite 0)\<rparr>)) \<and>
   \<not> accepts (schema U (r\<lparr>tokenCount := JNumber (Finite 201)\<rparr>))"
proof -
  have same: "amended_valid U r' \<longleftrightarrow> rules_hold False False False U r'"
    if "no_surrounding_space (title r')" "no_surrounding_space (url r')" for r'
    using that by (simp add: amended_valid_def rules_hold_def string_rule_no_space url_rule_no_space)
  have iff: "accepts (schema U r) \<longleftrightarrow> amended_valid U r"
    if "no_surrounding_space (title r)" "no_surrounding_space (url r)"
    using same [OF that] by (simp add: accepts_schema_untrimmed)
  have bounds: "accepts (schema U (r\<lparr>tokenCount := JNumber (Finite 1)\<rparr>)) \<and>
      accepts (schema U (r\<lparr>tokenCount := JNumber (Finite 200)\<rparr>))"
    if t: "no_surrounding_space (title r)" and u: "no_surrounding_space (url r)"
      and n: "amended_valid U (r\<lparr>tokenCount := n\<rparr>)" for n
  proof -
    from t u have "no_surrounding_space (title (r\<lparr>tokenCount := n\<rparr>))"
      "no_surrounding_space (url (r\<lparr>tokenCount := n\<rparr>))" by simp_all
    from same [OF this] n have "rules_hold False False False U (r\<lparr>tokenCount := n\<rparr>)" by simp
    then show ?thesis
      by (simp add: accepts_schema_untrimmed rules_hold_def spec_tokenCount_rule_def)
  qed
  have rejected: "\<not> accepts (schema U (r\<lparr>tokenCount := JNumber (Finite 0)\<rparr>)) \<and>
      \<not> accepts (schema U (r\<lparr>tokenCount := JNumber (Finite 201)\<rparr>))"
    by (simp add: accepts_schema_untrimmed rules_hold_def spec_tokenCount_rule_def)
  from iff bounds rejected show ?thesis by blast
qed

theorem schema_accepts_iff_amended_rules_witness:
  "no_surrounding_space (title example_form) \<and>
   no_surrounding_space (url example_form) \<and>
   amended_valid example_parser example_form \<and>
   accepts (schema example_parser example_form) \<and>
   \<not> accepts (schema example_parser (example_form\<lparr>tokenCount := JNumber (Finite 0)\<rparr>)) \<and>
   \<not> accepts (schema example_parser (example_form\<lparr>tokenCount := JNumber (Finite 201)\<rparr>)) \<and>
   accepts (schema example_parser (example_form\<lparr>tokenCount := JNumber (Finite 1)\<rparr>)) \<and>
   accepts (schema example_parser (example_form\<lparr>tokenCount := JNumber (Finite 200)\<rparr>))"
proof -
  have t: "no_surrounding_space (title example_form)"
    and u: "no_surrounding_space (url example_form)"
    by (simp_all add: no_surrounding_space_def example_form_def trim_example_title
        trim_example_url)
  have v: "amended_valid example_parser example_form"
    by (simp add: amended_valid_def example_rules)
  then have "amended_valid example_parser (example_form\<lparr>tokenCount := tokenCount example_form\<rparr>)"
    by simp
  with schema_accepts_iff_amended_rules [of example_form example_parser] t u v
  show ?thesis by blast
qed

text \<open>
  Claim C1, as it is stated, fails: a record that is valid but for its location of three
  spaces is accepted, while the rule of the specification, which trims the location before
  it checks that it is not empty, does not hold of it.
\<close>

theorem blank_location_accepted_against_rules:
  "accepts (schema example_parser (example_form\<lparr>location := JString ''   ''\<rparr>)) \<and>
   \<not> spec_valid example_parser (example_form\<lparr>location := JString ''   ''\<rparr>)"
  by (simp add: accepts_blank_location)
    (simp add: spec_valid_def rules_hold_def string_rule_def trim_spaces)

text \<open>
  The checks of the title and of the url see the untrimmed string too (\<open>trim\<close> is the last
  of their checks), so with white space around the title the two sides part as well: a
  title of three spaces is accepted, and a title of 256 letters and one space is rejected.
\<close>

lemma blank_title_accepted_against_rules:
  "accepts (schema example_parser (example_form\<lparr>title := JString ''   ''\<rparr>)) \<and>
   \<not> spec_valid example_parser (example_form\<lparr>title := JString ''   ''\<rparr>)"
proof -
  have "accepts (schema example_parser (example_form\<lparr>title := JString ''   ''\<rparr>))"
    using example_rules [of False False False]
    by (simp add: accepts_schema_untrimmed rules_hold_def string_rule_def)
  then show ?thesis
    by simp (simp add: spec_valid_def rules_hold_def string_rule_def trim_spaces)
qed

lemma dropWhile_keeps: "xs \<noteq> [] \<Longrightarrow> \<not> P (hd xs) \<Longrightarrow> dropWhile P xs = xs"
  by (cases xs) simp_all

lemma trim_padded_title: "trim (replicate 256 CHR ''a'' @ '' '') = replicate 256 CHR ''a''"
proof -
  have w: "is_white_space CHR '' ''" and a: "\<not> is_white_space CHR ''a''"
    by (simp_all add: is_white_space_def)
  have 1: "dropWhile is_white_space (replicate 256 CHR ''a'' @ '' '') = replicate 256 CHR ''a'' @ '' ''"
    by (rule dropWhile_keeps) (simp_all add: a hd_append)
  have 2: "dropWhile is_white_space (replicate 256 CHR ''a'') = replicate 256 CHR ''a''"
    by (rule dropWhile_keeps) (simp_all add: a)
  show ?thesis
    by (simp add: trim_def 1 2 w a)
qed

lemma padded_title_rejected_against_rules:
  "\<not> accepts (schema example_parser (example_form\<lparr>title := JString (replicate 256 CHR ''a'' @ '' '')\<rparr>)) \<and>
   spec_valid example_parser (example_form\<lparr>title := JString (replicate 256 CHR ''a'' @ '' '')\<rparr>)"
proof -
  have "\<not> accepts (schema example_parser (example_form\<lparr>title := JString (replicate 256 CHR ''a'' @ '' '')\<rparr>))"
    by (simp add: accepts_schema_untrimmed rules_hold_def string_rule_def)
  moreover have "spec_valid example_parser (example_form\<lparr>title := JString (replicate 256 CHR ''a'' @ '' '')\<rparr>)"
    using example_rules [of True True True]
    by (simp add: spec_valid_def rules_hold_def string_rule_def trim_padded_title)
  ultimately show ?thesis by simp
qed

subsection \<open>The issues of one field, and the output\<close>

lemma string_checks_path:
  "string_checks U p cs s = (iss, s') \<Longrightarrow> i \<in> set iss \<Longrightarrow> issue_path i = p"
  by (induction U p cs s arbitrary: iss s' rule: string_checks.induct)
    (auto split: prod.splits if_splits)

lemma filter_same_path:
  "(\<And>i. i \<in> set xs \<Longrightarrow> issue_path i = p) \<Longrightarrow>
   filter (\<lambda>i. issue_path i = q) xs = (if p = q then xs else [])"
  by (induction xs) auto

lemma issues_at_OK: "issues_at q (OK f) = []"
  by (simp add: issues_at_def OK_def)

lemma issues_at_field: "issues_at q (field obj x) = issues_at q obj @ issues_at q x"
  by (simp add: issues_at_def field_def)

lemma issues_at_intersection: "issues_at q (intersection m l r) = issues_at q l @ issues_at q r"
  by (simp add: issues_at_def intersection_def)

lemma issues_at_refine:
  "issues_at q (refine c p m inner) =
     issues_at q inner @
     (if p = q
      then (case value_of inner of
              None \<Rightarrow> []
            | Some x \<Rightarrow> if c x then [] else [Issue custom p (Some m)])
      else [])"
  by (cases inner) (auto simp: issues_at_def refine_def INVALID_def split: option.splits)

lemma issues_at_ZodString:
  "issues_at q (ZodString U cs p v) = (if p = q then issues (ZodString U cs p v) else [])"
  unfolding issues_at_def
  by (rule filter_same_path)
    (auto simp: ZodString_def INVALID_def split: jsval.splits prod.splits dest: string_checks_path)

lemma issues_at_ZodNumber:
  "issues_at q (ZodNumber cs p v) = (if p = q then issues (ZodNumber cs p v) else [])"
  unfolding issues_at_def
proof (rule filter_same_path)
  fix i assume "i \<in> set (issues (ZodNumber cs p v))"
  moreover have "j \<in> set (run_number_check p c x) \<Longrightarrow> issue_path j = p" for j c x
    by (cases c) (auto split: if_splits)
  ultimately show "issue_path i = p"
    by (auto simp: ZodNumber_def INVALID_def split: jsval.splits jsnum.splits)
qed

lemma issues_at_ZodBoolean:
  "issues_at q (ZodBoolean p v) = (if p = q then issues (ZodBoolean p v) else [])"
  by (auto simp: issues_at_def ZodBoolean_def INVALID_def OK_def split: jsval.splits)

lemma issues_at_date:
  "issues_at q (transform (required_date m) (nullable (ZodDate [DMin d m'])) p v) =
     (if p = q then issues (transform (required_date m) (nullable (ZodDate [DMin d m'])) p v)
      else [])"
  by (auto simp: issues_at_def date_field split: jsval.splits jsdate.splits)

lemmas issues_at_schema =
  schema_def schemaCommon_def schemaDates_def issues_at_intersection issues_at_field issues_at_OK
  issues_at_refine issues_at_ZodString issues_at_ZodNumber issues_at_ZodBoolean issues_at_date

text \<open>
  The checks of the title see the string as it is given: \<open>trim\<close> is the last of its checks.
\<close>

lemma title_issues:
  "title r = JString t \<Longrightarrow>
   issues_at [''title''] (schema U r) =
     (if length t < 1 then [Issue too_small [''title''] (Some ''Title is required'')] else []) @
     (if length t > 256
      then [Issue too_big [''title''] (Some ''Title must be less than 256 characters'')]
      else [])"
  by (simp add: issues_at_schema) (simp add: ZodString_def nonempty_def)

lemma location_issues:
  "location r = JString l \<Longrightarrow>
   issues_at [''location''] (schema U r) =
     (if length l < 1 then [Issue too_small [''location''] (Some ''Location is required'')] else []) @
     (if length l > 256
      then [Issue too_big [''location''] (Some ''Location must be less than 256 characters'')]
      else [])"
  by (simp add: issues_at_schema) (simp add: ZodString_def nonempty_def)

text \<open>So a title of three spaces passes, and leaves the schema as the empty string.\<close>

lemma whitespace_only_title:
  "accepts (schema example_parser (example_form\<lparr>title := JString ''   ''\<rparr>)) \<and>
   value_of (schema example_parser (example_form\<lparr>title := JString ''   ''\<rparr>)) =
     Some (example_values\<lparr>title := []\<rparr>)"
proof -
  have "schema example_parser (example_form\<lparr>title := JString ''   ''\<rparr>) =
      Parsed [] (Some (example_values\<lparr>title := []\<rparr>))"
    by (simp add: schema_def schemaCommon_def schemaDates_def intersection_def field_def OK_def
        ZodString_def ZodNumber_def ZodBoolean_def transform_def nullable_def ZodDate_def
        required_date_def refine_def nonempty_def positive_def example_form_def
        example_values_def example_parser_def merge_values_def trim_def is_white_space_def
        dates_in_order_def date_1900_01_01_def INVALID_def)
  then show ?thesis by (simp add: accepts_def)
qed

text \<open>The same holds of the url, whose second check is the URL parser.\<close>

lemma url_issues:
  "url r = JString u \<Longrightarrow>
   issues_at [''url''] (schema U r) =
     (if length u < 1 then [Issue too_small [''url''] (Some ''URL is required'')] else []) @
     (if U u then [] else [Issue invalid_string [''url''] (Some ''URL is invalid'')])"
  by (simp add: issues_at_schema) (simp add: ZodString_def nonempty_def)

lemma value_of_field:
  "value_of (field obj x) = Some y \<longleftrightarrow>
     (\<exists>f a. value_of obj = Some f \<and> value_of x = Some a \<and> y = f a)"
  by (auto simp: field_def split: option.splits)

lemma value_of_intersection:
  "value_of (intersection m l r) = Some y \<longleftrightarrow>
     (\<exists>a b. value_of l = Some a \<and> value_of r = Some b \<and> y = m a b)"
  by (auto simp: intersection_def split: option.splits)

lemma value_of_refine: "value_of (refine c p m inner) = value_of inner"
  by (cases inner) (auto simp: refine_def INVALID_def split: option.splits)

lemma value_of_ZodString:
  "value_of (ZodString U cs p v) = Some y \<longleftrightarrow>
     (\<exists>s. v = JString s \<and> y = snd (string_checks U p cs s))"
  by (auto simp: ZodString_def INVALID_def split: jsval.splits prod.splits)

lemma value_of_schemaCommon:
  "value_of (schemaCommon U r) = Some c \<Longrightarrow>
   \<exists>t d l u n b. c = (t, d, l, u, n, b) \<and>
     (\<forall>s. title r = JString s \<longrightarrow> t = trim s) \<and>
     (\<forall>s. description r = JString s \<longrightarrow> d = s) \<and>
     (\<forall>s. location r = JString s \<longrightarrow> l = s) \<and>
     (\<forall>s. url r = JString s \<longrightarrow> u = trim s) \<and>
     (\<forall>x. tokenCount r = JNumber x \<longrightarrow> n = x) \<and>
     (\<forall>x. isPublic r = JBoolean x \<longrightarrow> b = x)"
  unfolding schemaCommon_def value_of_field value_of_ZodString
  by (auto simp: OK_def nonempty_def ZodNumber_def ZodBoolean_def INVALID_def
      split: jsval.splits jsnum.splits)

lemma value_of_schema_common:
  assumes "value_of (schema U r) = Some v"
  shows "(\<forall>s. title r = JString s \<longrightarrow> title v = trim s) \<and>
     (\<forall>s. description r = JString s \<longrightarrow> description v = s) \<and>
     (\<forall>s. location r = JString s \<longrightarrow> location v = s) \<and>
     (\<forall>s. url r = JString s \<longrightarrow> url v = trim s) \<and>
     (\<forall>x. tokenCount r = JNumber x \<longrightarrow> tokenCount v = x) \<and>
     (\<forall>x. isPublic r = JBoolean x \<longrightarrow> isPublic v = x)"
proof -
  from assms obtain c d where c: "value_of (schemaCommon U r) = Some c"
    and v: "v = merge_values c d"
    by (auto simp: schema_def value_of_intersection)
  from value_of_schemaCommon [OF c] v show ?thesis
    by (auto simp: merge_values_def split: prod.splits)
qed

text \<open>
  Claim C5, as the code has it. The location is not trimmed: its emptiness and
  maximum-length checks are applied to the string as it is given, and the output of the
  schema holds it unchanged. The title and the url are trimmed by the schema: its output
  holds them without the surrounding white space.
\<close>

theorem location_untrimmed_title_url_trimmed:
  "(location r = JString l \<longrightarrow>
      issues_at [''location''] (schema U r) =
        (if length l < 1 then [Issue too_small [''location''] (Some ''Location is required'')]
         else []) @
        (if length l > 256
         then [Issue too_big [''location''] (Some ''Location must be less than 256 characters'')]
         else []) \<and>
      (\<forall>v. value_of (schema U r) = Some v \<longrightarrow> location v = l)) \<and>
   (title r = JString t \<and> url r = JString u \<longrightarrow>
      (\<forall>v. value_of (schema U r) = Some v \<longrightarrow> title v = trim t \<and> url v = trim u))"
  using location_issues [of r l U] value_of_schema_common [of U r]
  by blast

theorem location_untrimmed_title_url_trimmed_witness:
  "issues_at [''location''] (schema example_parser (example_form\<lparr>location := JString ''   ''\<rparr>)) = [] \<and>
   value_of (schema example_parser (example_form\<lparr>location := JString ''   ''\<rparr>))
     = Some (example_values\<lparr>location := ''   ''\<rparr>) \<and>
   location (example_values\<lparr>location := ''   ''\<rparr>) = ''   '' \<and>
   title (example_values\<lparr>location := ''   ''\<rparr>) = trim ''Launch'' \<and>
   url (example_values\<lparr>location := ''   ''\<rparr>) = trim ''https://example.org/poap.png''"
proof -
  let ?r = "example_form\<lparr>location := JString ''   ''\<rparr>"
  have v: "value_of (schema example_parser ?r) = Some (example_values\<lparr>location := ''   ''\<rparr>)"
    by (simp add: schema_def schemaCommon_def schemaDates_def intersection_def field_def OK_def
        ZodString_def ZodNumber_def ZodBoolean_def date_field refine_def nonempty_def
        positive_def example_form_def example_values_def example_parser_def merge_values_def
        trim_example_title trim_example_url dates_in_order_def)
  from location_untrimmed_title_url_trimmed
    [of ?r "''   ''" example_parser "''Launch''" "''https://example.org/poap.png''"] v
  show ?thesis
    by (simp add: example_form_def)
qed

text \<open>
  Claim C5, as it is stated, fails: a location of three spaces, in a record that is valid
  otherwise, is not rejected as empty.
\<close>

theorem whitespace_only_location_accepted:
  "accepts (schema example_parser (example_form\<lparr>location := JString ''   ''\<rparr>))"
  by (rule accepts_blank_location)

subsection \<open>The dates\<close>

lemma dateStart_issues:
  "issues_at [''dateStart''] (schema U r) =
     issues (transform (required_date ''Start Date is required'')
       (nullable (ZodDate [DMin date_1900_01_01 (Some ''Date is too far back'')]))
       [''dateStart''] (dateStart r))"
  by (simp add: issues_at_schema)

lemma dateEnd_issues:
  "issues_at [''dateEnd''] (schema U r) =
     issues (transform (required_date ''End Date is required'')
       (nullable (ZodDate [DMin date_1900_01_01 (Some ''Date is too far back'')]))
       [''dateEnd''] (dateEnd r)) @
     (case (dateStart r, dateEnd r) of
        (JNull, JNull) \<Rightarrow> [Issue custom [''dateEnd''] (Some ''End Date must be later than Start Date'')]
      | (JNull, JDate (TimeValue e)) \<Rightarrow> [Issue custom [''dateEnd''] (Some ''End Date must be later than Start Date'')]
      | (JDate (TimeValue s), JNull) \<Rightarrow> [Issue custom [''dateEnd''] (Some ''End Date must be later than Start Date'')]
      | (JDate (TimeValue s), JDate (TimeValue e)) \<Rightarrow>
          if s \<le> e then [] else [Issue custom [''dateEnd''] (Some ''End Date must be later than Start Date'')]
      | _ \<Rightarrow> [])"
  by (simp add: issues_at_schema)
    (auto simp: date_field field_def OK_def dates_in_order_def split: jsval.splits jsdate.splits)

text \<open>
  Claim C6. A null start date gets the issue "Start Date is required" on its own field, and
  no other issue there; a null end date gets "End Date is required" first on its own field,
  followed only by the issue of the ordering rule; neither gets an issue of a wrong type,
  and the record is rejected. A date before 1 January 1900 makes the record rejected. With
  both dates present, the record is accepted exactly when the other fields are, both dates
  are not before 1 January 1900 and the end date is not before the start date (equal dates
  pass); an end date before the start date puts the issue of the ordering rule on the field
  of the end date, and none on that of the start date.
\<close>

theorem date_rules:
  "(dateStart r = JNull \<longrightarrow>
      issues_at [''dateStart''] (schema U r) =
        [Issue custom [''dateStart''] (Some ''Start Date is required'')] \<and>
      \<not> accepts (schema U r)) \<and>
   (dateEnd r = JNull \<longrightarrow>
      issues_at [''dateEnd''] (schema U r) =
        Issue custom [''dateEnd''] (Some ''End Date is required'') #
        (if dateStart r = JNull \<or> (\<exists>s. dateStart r = JDate (TimeValue s))
         then [Issue custom [''dateEnd''] (Some ''End Date must be later than Start Date'')]
         else []) \<and>
      \<not> accepts (schema U r)) \<and>
   ((dateStart r = JDate (TimeValue t) \<or> dateEnd r = JDate (TimeValue t)) \<and> t < date_1900_01_01 \<longrightarrow>
      \<not> accepts (schema U r)) \<and>
   (dateStart r = JDate (TimeValue s) \<and> dateEnd r = JDate (TimeValue e) \<longrightarrow>
      (accepts (schema U r) \<longleftrightarrow>
         accepts (schemaCommon U r) \<and> date_1900_01_01 \<le> s \<and> date_1900_01_01 \<le> e \<and> s \<le> e) \<and>
      (e < s \<longrightarrow>
         issues_at [''dateEnd''] (schema U r) =
           (if e < date_1900_01_01 then [Issue too_small [''dateEnd''] (Some ''Date is too far back'')] else []) @
           [Issue custom [''dateEnd''] (Some ''End Date must be later than Start Date'')] \<and>
         issues_at [''dateStart''] (schema U r) =
           (if s < date_1900_01_01 then [Issue too_small [''dateStart''] (Some ''Date is too far back'')] else [])))"
proof -
  have a: "dateStart r = JNull \<Longrightarrow> issues_at [''dateStart''] (schema U r) =
        [Issue custom [''dateStart''] (Some ''Start Date is required'')]"
    by (simp add: dateStart_issues date_field)
  have b: "dateEnd r = JNull \<Longrightarrow> issues_at [''dateEnd''] (schema U r) =
        Issue custom [''dateEnd''] (Some ''End Date is required'') #
        (if dateStart r = JNull \<or> (\<exists>s. dateStart r = JDate (TimeValue s))
         then [Issue custom [''dateEnd''] (Some ''End Date must be later than Start Date'')]
         else [])"
    by (auto simp add: dateEnd_issues date_field split: jsval.splits jsdate.splits)
  have c: "dateStart r = JNull \<or> dateEnd r = JNull \<Longrightarrow> \<not> accepts (schema U r)"
    by (auto simp: accepts_schema accepts_schemaDates spec_date_rule_def)
  have d: "(dateStart r = JDate (TimeValue t) \<or> dateEnd r = JDate (TimeValue t)) \<and> t < date_1900_01_01
      \<Longrightarrow> \<not> accepts (schema U r)"
    by (auto simp: accepts_schema accepts_schemaDates spec_date_rule_def)
  have e: "dateStart r = JDate (TimeValue s) \<and> dateEnd r = JDate (TimeValue e) \<Longrightarrow>
      (accepts (schema U r) \<longleftrightarrow>
         accepts (schemaCommon U r) \<and> date_1900_01_01 \<le> s \<and> date_1900_01_01 \<le> e \<and> s \<le> e)"
    by (auto simp: accepts_schema accepts_schemaDates spec_date_rule_def spec_order_rule_def)
  have f: "dateStart r = JDate (TimeValue s) \<and> dateEnd r = JDate (TimeValue e) \<Longrightarrow> e < s \<Longrightarrow>
         issues_at [''dateEnd''] (schema U r) =
           (if e < date_1900_01_01 then [Issue too_small [''dateEnd''] (Some ''Date is too far back'')] else []) @
           [Issue custom [''dateEnd''] (Some ''End Date must be later than Start Date'')] \<and>
         issues_at [''dateStart''] (schema U r) =
           (if s < date_1900_01_01 then [Issue too_small [''dateStart''] (Some ''Date is too far back'')] else [])"
    by (simp add: dateEnd_issues dateStart_issues date_field)
  from a b c d e f show ?thesis by blast
qed

lemma accepts_example_common: "accepts (schemaCommon example_parser example_form)"
  using example_rules [of False False False] by (simp add: accepts_schemaCommon rules_hold_def)

theorem date_rules_witness:
  "issues_at [''dateStart''] (schema example_parser (example_form\<lparr>dateStart := JNull\<rparr>)) =
     [Issue custom [''dateStart''] (Some ''Start Date is required'')] \<and>
   \<not> accepts (schema example_parser (example_form\<lparr>dateStart := JNull\<rparr>)) \<and>
   issues_at [''dateEnd''] (schema example_parser (example_form\<lparr>dateEnd := JNull\<rparr>)) =
     [Issue custom [''dateEnd''] (Some ''End Date is required''),
      Issue custom [''dateEnd''] (Some ''End Date must be later than Start Date'')] \<and>
   \<not> accepts (schema example_parser (example_form\<lparr>dateEnd := JNull\<rparr>)) \<and>
   \<not> accepts (schema example_parser (example_form\<lparr>dateStart := JDate (TimeValue (- 2208988800001))\<rparr>)) \<and>
   accepts (schema example_parser example_form) \<and>
   issues_at [''dateEnd''] (schema example_parser (example_form\<lparr>dateEnd := JDate (TimeValue 1699913600000)\<rparr>)) =
     [Issue custom [''dateEnd''] (Some ''End Date must be later than Start Date'')] \<and>
   issues_at [''dateStart''] (schema example_parser (example_form\<lparr>dateEnd := JDate (TimeValue 1699913600000)\<rparr>)) = [] \<and>
   \<not> accepts (schema example_parser (example_form\<lparr>dateEnd := JDate (TimeValue 1699913600000)\<rparr>))"
proof -
  have c: "accepts (schemaCommon example_parser (example_form\<lparr>dateEnd := JDate (TimeValue 1699913600000)\<rparr>))"
    using accepts_example_common by (simp add: accepts_schemaCommon)
  show ?thesis
    using date_rules [of "example_form\<lparr>dateStart := JNull\<rparr>" example_parser 0 0 0]
      date_rules [of "example_form\<lparr>dateEnd := JNull\<rparr>" example_parser 0 0 0]
      date_rules [of "example_form\<lparr>dateStart := JDate (TimeValue (- 2208988800001))\<rparr>"
        example_parser "- 2208988800001" 0 0]
      date_rules [of example_form example_parser 0 1700000000000 1700000000000]
      date_rules [of "example_form\<lparr>dateEnd := JDate (TimeValue 1699913600000)\<rparr>" example_parser 0
        1700000000000 1699913600000]
      accepts_example_common c
    by (simp add: example_form_def date_1900_01_01_def)
qed

section \<open>Properties of the dialog\<close>

subsection \<open>Submitting\<close>

lemma handleSubmit_valid:
  "accepts (schema U (form_values st)) \<Longrightarrow> value_of (schema U (form_values st)) = Some v \<Longrightarrow>
   handleSubmit U onValid st = Some (onValid v st)"
  by (cases "schema U (form_values st)") (simp add: handleSubmit_def accepts_def)

lemma handleSubmit_invalid:
  "\<not> accepts (schema U (form_values st)) \<Longrightarrow> handleSubmit U onValid st = None"
  by (cases "schema U (form_values st)")
    (auto simp: handleSubmit_def accepts_def split: list.splits option.splits)

lemma onSubmit_call_issued:
  "account env = Some a \<Longrightarrow> networkId env = Some n \<Longrightarrow> jwt env = Some j \<Longrightarrow>
   onSubmit_call env v st =
     Awaiting j (request_body n v)
       (st\<lparr>loading := True, calls := calls st @ [(j, request_body n v)]\<rparr>)"
  by (simp add: onSubmit_call_def setLoading_def)

lemma onSubmit_call_guarded:
  "account env = None \<or> networkId env = None \<or> jwt env = None \<Longrightarrow>
   onSubmit_call env v st = Settled (st\<lparr>loading := False, activeDialog := None\<rparr>)"
  by (auto simp: onSubmit_call_def Let_def setLoading_def finally_block_def setActiveDialog_def
      split: option.splits)

lemma onSubmit_settle_resolved:
  "onSubmit_settle (Resolved eventId) st =
     st\<lparr>form_values := defaultValues, loading := False, activeDialog := None,
       snackbar := snackbar st @ [(''Mint successful: Event #'' @ show_nat eventId, success)]\<rparr>"
  by (simp add: onSubmit_settle_def finally_block_def setActiveDialog_def setLoading_def reset_def
      enqueueSnackbar_def)

text \<open>The catch block, by the value that was thrown.\<close>

lemma failure_messages:
  "catch_block (AxiosError (Some (ResponseData (Some m))) m') st =
     Inr (st\<lparr>snackbar := snackbar st @ [(''Mint failed: '' @ m, error)]\<rparr>)"
  "catch_block (AxiosError (Some (ResponseData None)) m') st =
     Inr (st\<lparr>snackbar := snackbar st @ [(''Mint failed: undefined'', error)]\<rparr>)"
  "catch_block (AxiosError None m') st =
     Inr (st\<lparr>snackbar := snackbar st @ [(''Mint failed: undefined'', error)]\<rparr>)"
  "catch_block (AxiosError (Some NullData) m') st = Inl TypeError"
  "catch_block (Error m) st =
     Inr (st\<lparr>snackbar := snackbar st @ [(''Mint failed: '' @ m, error)]\<rparr>)"
  "catch_block NoMessage st =
     Inr (st\<lparr>snackbar := snackbar st @ [(''Mint failed: undefined'', error)]\<rparr>)"
  "catch_block Nullish st = Inl TypeError"
  by (simp_all add: catch_block_def response_error_def enqueueSnackbar_def
      show_string_or_undefined_def)

text \<open>The block throws on exactly two kinds of value.\<close>

lemma catch_block_throws:
  "catch_block err st = Inl e \<longleftrightarrow>
     e = TypeError \<and> (err = Nullish \<or> (\<exists>m. err = AxiosError (Some NullData) m))"
  by (cases e)
    (auto simp: catch_block_def response_error_def split: thrown.splits option.splits
      response_data.splits)

lemma catch_block_notifies:
  assumes "catch_block err st = Inr st'"
  shows "\<exists>m. st' = st\<lparr>snackbar := snackbar st @ [(''Mint failed: '' @ m, error)]\<rparr>"
proof (cases err)
  case (AxiosError resp m')
  show ?thesis
  proof (cases resp)
    case None
    with AxiosError assms have "st' = st\<lparr>snackbar := snackbar st @ [(''Mint failed: '' @ ''undefined'', error)]\<rparr>"
      by (simp add: failure_messages)
    then show ?thesis ..
  next
    case (Some d)
    show ?thesis
    proof (cases d)
      case NullData
      with AxiosError Some assms show ?thesis by (simp add: failure_messages)
    next
      case (ResponseData v)
      with AxiosError Some assms
      have "st' = st\<lparr>snackbar := snackbar st @ [(''Mint failed: '' @ show_string_or_undefined v, error)]\<rparr>"
        by (simp add: catch_block_def response_error_def enqueueSnackbar_def)
      then show ?thesis ..
    qed
  qed
next
  case (Error m)
  with assms have "st' = st\<lparr>snackbar := snackbar st @ [(''Mint failed: '' @ m, error)]\<rparr>"
    by (simp add: failure_messages)
  then show ?thesis ..
next
  case NoMessage
  with assms have "st' = st\<lparr>snackbar := snackbar st @ [(''Mint failed: '' @ ''undefined'', error)]\<rparr>"
    by (simp add: failure_messages)
  then show ?thesis ..
next
  case Nullish
  with assms show ?thesis by (simp add: failure_messages)
qed

text \<open>Whatever was thrown, the finally block has run when the handler is done.\<close>

lemma onSubmit_settle_rejected:
  "form_values (onSubmit_settle (Rejected err) st) = form_values st \<and>
   calls (onSubmit_settle (Rejected err) st) = calls st \<and>
   loading (onSubmit_settle (Rejected err) st) = False \<and>
   activeDialog (onSubmit_settle (Rejected err) st) = None"
proof (cases "catch_block err st")
  case (Inl e)
  then show ?thesis
    by (simp add: onSubmit_settle_def finally_block_def setActiveDialog_def setLoading_def)
next
  case (Inr st')
  from catch_block_notifies [OF Inr] obtain m where
    "st' = st\<lparr>snackbar := snackbar st @ [(''Mint failed: '' @ m, error)]\<rparr>" ..
  with Inr show ?thesis
    by (simp add: onSubmit_settle_def finally_block_def setActiveDialog_def setLoading_def)
qed

lemma snackbar_onSubmit_settle_rejected:
  "catch_block err st = Inr st' \<Longrightarrow> snackbar (onSubmit_settle (Rejected err) st) = snackbar st'"
  "catch_block err st = Inl e \<Longrightarrow> snackbar (onSubmit_settle (Rejected err) st) = snackbar st"
  by (simp_all add: onSubmit_settle_def finally_block_def setActiveDialog_def setLoading_def)

lemma calls_onSubmit_settle: "calls (onSubmit_settle outcome st) = calls st"
  by (cases outcome) (simp_all add: onSubmit_settle_resolved onSubmit_settle_rejected)

lemma example_schema: "schema example_parser example_form = Parsed [] (Some example_values)"
  by (simp add: schema_def schemaCommon_def schemaDates_def intersection_def field_def OK_def
      ZodString_def ZodNumber_def ZodBoolean_def date_field refine_def nonempty_def
      positive_def example_form_def example_values_def example_parser_def merge_values_def
      trim_example_title trim_example_url dates_in_order_def date_1900_01_01_def)

lemma example_valid:
  "accepts (schema example_parser (form_values example_state)) \<and>
   value_of (schema example_parser (form_values example_state)) = Some example_values"
  by (simp add: example_state_def example_schema accepts_def)

lemma show_nat_42: "show_nat 42 = ''42''"
  by code_simp

text \<open>
  Claim C2. When the record of the form is valid and account, network identifier and
  session token are present, a submit makes exactly one create-event call, with the token
  and a body that carries the network identifier and, from the output of the schema, the
  token count, title, description, location, url (as imageUrl) and the two dates, and
  isManaged as the negation of isPublic. If the call resolves with an event identifier,
  one success notification "Mint successful: Event #" followed by the identifier is
  shown, the form is reset to its defaults, the loading flag is cleared and the
  active-dialog atom is emptied.
\<close>

theorem submit_success:
  "accepts (schema U (form_values st)) \<and> value_of (schema U (form_values st)) = Some v \<and>
   account env = Some a \<and> networkId env = Some n \<and> jwt env = Some j \<longrightarrow>
   (\<exists>st'. handleSubmit U (onSubmit env api) st = Some st' \<and>
      calls st' = calls st @
        [(j, \<lparr>networkId' = n, tokenCount' = tokenCount v, title' = title v,
              description' = description v, location' = location v, imageUrl = url v,
              dateStart' = dateStart v, dateEnd' = dateEnd v,
              isManaged = (\<not> isPublic v)\<rparr>)] \<and>
      isPublic (form_values st) = JBoolean (isPublic v) \<and>
      (\<forall>eventId. api j (request_body n v) = Resolved eventId \<longrightarrow>
         snackbar st' = snackbar st @ [(''Mint successful: Event #'' @ show_nat eventId, success)] \<and>
         form_values st' = defaultValues \<and>
         loading st' = False \<and>
         activeDialog st' = None))"
proof (intro impI, elim conjE)
  assume ok: "accepts (schema U (form_values st))"
    and v: "value_of (schema U (form_values st)) = Some v"
    and env: "account env = Some a" "networkId env = Some n" "jwt env = Some j"
  let ?st' = "onSubmit env api v st"
  have run: "handleSubmit U (onSubmit env api) st = Some ?st'"
    using ok v by (rule handleSubmit_valid)
  have st': "?st' = onSubmit_settle (api j (request_body n v))
      (st\<lparr>loading := True, calls := calls st @ [(j, request_body n v)]\<rparr>)"
    by (simp add: onSubmit_def onSubmit_call_issued [OF env])
  have calls: "calls ?st' = calls st @ [(j, request_body n v)]"
    by (simp add: st' calls_onSubmit_settle)
  have isPublic: "isPublic (form_values st) = JBoolean (isPublic v)"
  proof -
    from ok have "spec_boolean_rule (isPublic (form_values st))"
      by (simp add: accepts_schema accepts_schemaCommon)
    then obtain b where b: "isPublic (form_values st) = JBoolean b"
      by (auto simp: spec_boolean_rule_def split: jsval.splits)
    with value_of_schema_common [OF v] show ?thesis by simp
  qed
  have resolved: "snackbar ?st' = snackbar st @ [(''Mint successful: Event #'' @ show_nat eventId, success)] \<and>
      form_values ?st' = defaultValues \<and> loading ?st' = False \<and> activeDialog ?st' = None"
    if "api j (request_body n v) = Resolved eventId" for eventId
    using that by (simp add: st' onSubmit_settle_resolved)
  show "\<exists>st'. handleSubmit U (onSubmit env api) st = Some st' \<and>
      calls st' = calls st @
        [(j, \<lparr>networkId' = n, tokenCount' = tokenCount v, title' = title v,
              description' = description v, location' = location v, imageUrl = url v,
              dateStart' = dateStart v, dateEnd' = dateEnd v,
              isManaged = (\<not> isPublic v)\<rparr>)] \<and>
      isPublic (form_values st) = JBoolean (isPublic v) \<and>
      (\<forall>eventId. api j (request_body n v) = Resolved eventId \<longrightarrow>
         snackbar st' = snackbar st @ [(''Mint successful: Event #'' @ show_nat eventId, success)] \<and>
         form_values st' = defaultValues \<and>
         loading st' = False \<and>
         activeDialog st' = None)"
  proof (intro exI conjI allI impI)
    show "handleSubmit U (onSubmit env api) st = Some ?st'" by (rule run)
    show "calls ?st' = calls st @
        [(j, \<lparr>networkId' = n, tokenCount' = tokenCount v, title' = title v,
              description' = description v, location' = location v, imageUrl = url v,
              dateStart' = dateStart v, dateEnd' = dateEnd v,
              isManaged = (\<not> isPublic v)\<rparr>)]"
      using calls by (simp add: request_body_def)
    show "isPublic (form_values st) = JBoolean (isPublic v)" by (rule isPublic)
  qed (simp_all add: resolved)
qed

theorem submit_success_witness:
  "handleSubmit example_parser (onSubmit example_providers service_creates) example_state =
     Some \<lparr>form_values = defaultValues, loading = False, activeDialog = None,
       calls = [(''token'',
         \<lparr>networkId' = 5, tokenCount' = Finite 200, title' = ''Launch'',
          description' = ''A party'', location' = ''Berlin'',
          imageUrl = ''https://example.org/poap.png'',
          dateStart' = Some 1700000000000, dateEnd' = Some 1700000000000,
          isManaged = False\<rparr>)],
       snackbar = [(''Mint successful: Event #42'', success)]\<rparr>"
proof -
  have pre: "accepts (schema example_parser (form_values example_state)) \<and>
      value_of (schema example_parser (form_values example_state)) = Some example_values \<and>
      account example_providers = Some ''0xA1'' \<and> networkId example_providers = Some 5 \<and>
      jwt example_providers = Some ''token''"
    by (simp add: example_valid example_providers_def)
  from submit_success [of example_parser example_state example_values example_providers
      "''0xA1''" 5 "''token''" service_creates] pre
  obtain st' where
    run: "handleSubmit example_parser (onSubmit example_providers service_creates) example_state = Some st'"
    and c: "calls st' = calls example_state @
        [(''token'', \<lparr>networkId' = 5, tokenCount' = tokenCount example_values,
              title' = title example_values, description' = description example_values,
              location' = location example_values, imageUrl = url example_values,
              dateStart' = dateStart example_values, dateEnd' = dateEnd example_values,
              isManaged = (\<not> isPublic example_values)\<rparr>)]"
    and r: "\<forall>eventId. service_creates ''token'' (request_body 5 example_values) = Resolved eventId \<longrightarrow>
         snackbar st' = snackbar example_state @ [(''Mint successful: Event #'' @ show_nat eventId, success)] \<and>
         form_values st' = defaultValues \<and> loading st' = False \<and> activeDialog st' = None"
    by blast
  from r have r': "snackbar st' = snackbar example_state @ [(''Mint successful: Event #'' @ show_nat 42, success)] \<and>
         form_values st' = defaultValues \<and> loading st' = False \<and> activeDialog st' = None"
    by (simp add: service_creates_def)
  have "st' = \<lparr>form_values = defaultValues, loading = False, activeDialog = None,
       calls = [(''token'',
         \<lparr>networkId' = 5, tokenCount' = Finite 200, title' = ''Launch'',
          description' = ''A party'', location' = ''Berlin'',
          imageUrl = ''https://example.org/poap.png'',
          dateStart' = Some 1700000000000, dateEnd' = Some 1700000000000,
          isManaged = False\<rparr>)],
       snackbar = [(''Mint successful: Event #42'', success)]\<rparr>"
    using c r' by (cases st') (simp add: example_state_def example_values_def show_nat_42)
  with run show ?thesis by simp
qed

lemma example_run:
  "handleSubmit example_parser (onSubmit env api) example_state =
     Some (onSubmit env api example_values example_state)"
  using example_valid by (simp add: handleSubmit_valid)

lemma onSubmit_example:
  "onSubmit example_providers api example_values st =
     onSubmit_settle (api ''token'' (request_body 5 example_values))
       (st\<lparr>loading := True, calls := calls st @ [(''token'', request_body 5 example_values)]\<rparr>)"
proof -
  have "onSubmit_call example_providers example_values st =
     Awaiting ''token'' (request_body 5 example_values)
       (st\<lparr>loading := True, calls := calls st @ [(''token'', request_body 5 example_values)]\<rparr>)"
    by (rule onSubmit_call_issued) (simp_all add: example_providers_def)
  then show ?thesis by (simp add: onSubmit_def)
qed

text \<open>
  When the create-event call of a submit rejects with a value on which the catch block
  does not throw, one notification of the variant \<open>error\<close> is shown, the values of the form
  are left as they were, the loading flag is cleared and the active-dialog atom is
  emptied.
\<close>

lemma submit_failure_notified:
  assumes "accepts (schema U (form_values st))"
    and "value_of (schema U (form_values st)) = Some v"
    and "account env = Some a" "networkId env = Some n" "jwt env = Some j"
    and "api j (request_body n v) = Rejected err"
    and "err \<noteq> Nullish" and "\<And>m. err \<noteq> AxiosError (Some NullData) m"
  shows "\<exists>st' m. handleSubmit U (onSubmit env api) st = Some st' \<and>
      snackbar st' = snackbar st @ [(''Mint failed: '' @ m, error)] \<and>
      form_values st' = form_values st \<and>
      loading st' = False \<and>
      activeDialog st' = None"
proof -
  let ?st0 = "st\<lparr>loading := True, calls := calls st @ [(j, request_body n v)]\<rparr>"
  let ?st' = "onSubmit env api v st"
  have run: "handleSubmit U (onSubmit env api) st = Some ?st'"
    using assms(1,2) by (rule handleSubmit_valid)
  have st': "?st' = onSubmit_settle (Rejected err) ?st0"
    by (simp add: onSubmit_def onSubmit_call_issued [OF assms(3-5)] assms(6))
  obtain s where s: "catch_block err ?st0 = Inr s"
    using assms(7,8) catch_block_throws [of err ?st0] by (cases "catch_block err ?st0") auto
  from catch_block_notifies [OF s] obtain m where
    m: "s = ?st0\<lparr>snackbar := snackbar ?st0 @ [(''Mint failed: '' @ m, error)]\<rparr>" ..
  have "snackbar ?st' = snackbar st @ [(''Mint failed: '' @ m, error)]"
    by (simp add: st' snackbar_onSubmit_settle_rejected(1) [OF s] m)
  moreover have "form_values ?st' = form_values st \<and> loading ?st' = False \<and> activeDialog ?st' = None"
    by (simp add: st' onSubmit_settle_rejected)
  ultimately show ?thesis using run by blast
qed

lemma refused_run:
  "handleSubmit example_parser (onSubmit example_providers service_refuses) example_state =
     Some (example_state\<lparr>loading := False, activeDialog := None,
       calls := [(''token'', request_body 5 example_values)],
       snackbar := [(''Mint failed: limit exceeded'', error)]\<rparr>)"
  by (subst example_run)
    (simp add: onSubmit_example service_refuses_def onSubmit_settle_def failure_messages
      finally_block_def setActiveDialog_def setLoading_def example_state_def)

text \<open>
  Claim C3, at a service that answers an error status with the body \<open>null\<close>. The axios error
  has a response whose data are null; the catch block reads the \<open>error\<close> property of the data
  and throws a \<open>TypeError\<close> before any notification is shown. The finally block runs all the
  same: the values of the form are left as they were, the loading flag is cleared and the
  active-dialog atom is emptied; the \<open>TypeError\<close> leaves the handler.
\<close>

theorem null_data_no_notification:
  "handleSubmit example_parser (onSubmit example_providers service_null_data) example_state =
     Some (example_state\<lparr>loading := False, activeDialog := None,
       calls := [(''token'', request_body 5 example_values)],
       snackbar := []\<rparr>) \<and>
   onSubmit_uncaught (service_null_data ''token'' (request_body 5 example_values))
     (example_state\<lparr>loading := True, calls := [(''token'', request_body 5 example_values)]\<rparr>) =
     Some TypeError"
proof -
  have "handleSubmit example_parser (onSubmit example_providers service_null_data) example_state =
     Some (example_state\<lparr>loading := False, activeDialog := None,
       calls := [(''token'', request_body 5 example_values)],
       snackbar := []\<rparr>)"
    by (subst example_run)
      (simp add: onSubmit_example service_null_data_def onSubmit_settle_def failure_messages
        finally_block_def setActiveDialog_def setLoading_def example_state_def)
  moreover have "onSubmit_uncaught (service_null_data ''token'' (request_body 5 example_values))
     (example_state\<lparr>loading := True, calls := [(''token'', request_body 5 example_values)]\<rparr>) =
     Some TypeError"
    by (simp add: onSubmit_uncaught_def service_null_data_def failure_messages)
  ultimately show ?thesis by simp
qed

text \<open>
  Claim C4, at a service that cannot be reached. The axios error has no response, and the
  notification reads "Mint failed: undefined": the message of the error, "Network Error",
  is not in it.
\<close>

theorem unreachable_service_message:
  "handleSubmit example_parser (onSubmit example_providers service_unreachable) example_state =
     Some (example_state\<lparr>loading := False, activeDialog := None,
       calls := [(''token'', request_body 5 example_values)],
       snackbar := [(''Mint failed: undefined'', error)]\<rparr>)"
  by (subst example_run)
    (simp add: onSubmit_example service_unreachable_def onSubmit_settle_def failure_messages
      finally_block_def setActiveDialog_def setLoading_def example_state_def)

subsection \<open>The controls\<close>

text \<open>
  Claim C7. The Create button is disabled exactly when the record of the form does not
  validate, or no account is connected, or the user is not authenticated, or a submission
  is in flight; each of the four alone disables it.
\<close>

theorem create_disabled_iff:
  "(create_disabled U env st \<longleftrightarrow>
      \<not> accepts (schema U (form_values st)) \<or> account env = None \<or>
      \<not> isAuthenticated env \<or> loading st) \<and>
   (\<not> accepts (schema U (form_values st)) \<longrightarrow> create_disabled U env st) \<and>
   (account env = None \<longrightarrow> create_disabled U env st) \<and>
   (\<not> isAuthenticated env \<longrightarrow> create_disabled U env st) \<and>
   (loading st \<longrightarrow> create_disabled U env st)"
  by (auto simp: create_disabled_def isValid_def)

theorem create_disabled_iff_witness:
  "\<not> create_disabled example_parser example_providers example_state \<and>
   create_disabled example_parser example_providers (example_state\<lparr>form_values := defaultValues\<rparr>) \<and>
   create_disabled example_parser (example_providers\<lparr>account := None\<rparr>) example_state \<and>
   create_disabled example_parser (example_providers\<lparr>isAuthenticated := False\<rparr>) example_state \<and>
   create_disabled example_parser example_providers (example_state\<lparr>loading := True\<rparr>)"
proof -
  have invalid: "\<not> accepts (schema example_parser defaultValues)"
    by (simp add: accepts_schema accepts_schemaCommon defaultValues_def string_rule_def)
  have valid: "accepts (schema example_parser example_form)"
    by (simp add: example_schema accepts_def)
  show ?thesis
    using create_disabled_iff [of example_parser example_providers example_state]
      create_disabled_iff [of example_parser example_providers
        "example_state\<lparr>form_values := defaultValues\<rparr>"]
      create_disabled_iff [of example_parser "example_providers\<lparr>account := None\<rparr>" example_state]
      create_disabled_iff [of example_parser "example_providers\<lparr>isAuthenticated := False\<rparr>"
        example_state]
      create_disabled_iff [of example_parser example_providers "example_state\<lparr>loading := True\<rparr>"]
      invalid valid
    by (simp add: example_state_def example_providers_def)
qed

text \<open>
  Claim C9, as the code has it. The Cancel button resets the form to its defaults and
  empties the active-dialog atom. The close button empties the atom and leaves the values
  of the form as they are, and so does every call of \<open>handleClose\<close> with another reason than
  a click on the backdrop. The escape key is switched off for this dialog: pressing it
  changes nothing. A click on the backdrop changes nothing either.
\<close>

theorem closing_actions:
  "handleCancel st = st\<lparr>form_values := defaultValues, activeDialog := None\<rparr> \<and>
   (\<not> loading st \<longrightarrow>
      user_step U env CancelButton st = st\<lparr>form_values := defaultValues, activeDialog := None\<rparr> \<and>
      user_step U env CloseIcon st = st\<lparr>activeDialog := None\<rparr>) \<and>
   (reason \<noteq> Some ''backdropClick'' \<longrightarrow> handleClose reason st = st\<lparr>activeDialog := None\<rparr>) \<and>
   user_step U env EscapeKey st = st \<and>
   handleClose (Some ''backdropClick'') st = st \<and>
   user_step U env BackdropClick st = st"
  by (simp add: user_step_def handleCancel_def handleClose_def reset_def setActiveDialog_def
      disableEscapeKeyDown_def)

theorem closing_actions_witness:
  "user_step example_parser example_providers CancelButton example_state =
     example_state\<lparr>form_values := defaultValues, activeDialog := None\<rparr> \<and>
   user_step example_parser example_providers CloseIcon example_state =
     example_state\<lparr>activeDialog := None\<rparr> \<and>
   handleClose None example_state = example_state\<lparr>activeDialog := None\<rparr> \<and>
   user_step example_parser example_providers EscapeKey example_state = example_state \<and>
   user_step example_parser example_providers BackdropClick example_state = example_state"
  using closing_actions [of example_state example_parser example_providers None]
  by (simp add: example_state_def)

text \<open>
  Claim C9, as it is stated, fails: the escape key does not close the dialog, which is
  open before the key is pressed and after it.
\<close>

theorem escape_key_leaves_dialog_open:
  "is_open example_state \<and>
   is_open (user_step example_parser example_providers EscapeKey example_state)"
  by (simp add: user_step_def disableEscapeKeyDown_def is_open_def example_state_def)

text \<open>
  Claim C10. While a submission is in flight the loading flag is set, and then nothing
  the user can do to the dialog changes its state: the Cancel button, the close icon, the
  Create button and every field are disabled, the escape key is switched off and a click on
  the backdrop is ignored. The flag is set when the call is issued; when the call settles,
  the flag is cleared and the active-dialog atom is emptied.
\<close>

theorem in_flight_nothing_closes:
  "(loading st \<longrightarrow> user_step U env ev st = st) \<and>
   (onSubmit_call env v st = Awaiting j body st' \<longrightarrow> loading st') \<and>
   \<not> loading (onSubmit_settle outcome st) \<and>
   activeDialog (onSubmit_settle outcome st) = None"
proof -
  have "loading st \<Longrightarrow> user_step U env ev st = st"
    by (cases ev)
      (simp_all add: user_step_def disableEscapeKeyDown_def handleClose_def create_disabled_def)
  moreover have "onSubmit_call env v st = Awaiting j body st' \<Longrightarrow> loading st'"
    by (auto simp: onSubmit_call_def Let_def setLoading_def split: option.splits)
  moreover have "\<not> loading (onSubmit_settle outcome st) \<and> activeDialog (onSubmit_settle outcome st) = None"
    by (cases outcome) (simp_all add: onSubmit_settle_resolved onSubmit_settle_rejected)
  ultimately show ?thesis by blast
qed

lemma example_in_flight:
  "onSubmit_call example_providers example_values example_state =
     Awaiting ''token'' (request_body 5 example_values)
       (example_state\<lparr>loading := True, calls := [(''token'', request_body 5 example_values)]\<rparr>)"
proof -
  have "onSubmit_call example_providers example_values example_state =
     Awaiting ''token'' (request_body 5 example_values)
       (example_state\<lparr>loading := True,
          calls := calls example_state @ [(''token'', request_body 5 example_values)]\<rparr>)"
    by (rule onSubmit_call_issued) (simp_all add: example_providers_def)
  then show ?thesis by (simp add: example_state_def)
qed

theorem in_flight_nothing_closes_witness:
  "loading (example_state\<lparr>loading := True, calls := [(''token'', request_body 5 example_values)]\<rparr>) \<and>
   user_step example_parser example_providers CancelButton
     (example_state\<lparr>loading := True, calls := [(''token'', request_body 5 example_values)]\<rparr>) =
     example_state\<lparr>loading := True, calls := [(''token'', request_body 5 example_values)]\<rparr> \<and>
   user_step example_parser example_providers CloseIcon
     (example_state\<lparr>loading := True, calls := [(''token'', request_body 5 example_values)]\<rparr>) =
     example_state\<lparr>loading := True, calls := [(''token'', request_body 5 example_values)]\<rparr> \<and>
   user_step example_parser example_providers (EditField (\<lambda>r. defaultValues))
     (example_state\<lparr>loading := True, calls := [(''token'', request_body 5 example_values)]\<rparr>) =
     example_state\<lparr>loading := True, calls := [(''token'', request_body 5 example_values)]\<rparr>"
proof -
  let ?st = "example_state\<lparr>loading := True, calls := [(''token'', request_body 5 example_values)]\<rparr>"
  have l: "loading ?st"
    using in_flight_nothing_closes [of example_state example_parser example_providers CancelButton
        example_values "''token''" "request_body 5 example_values" ?st "Resolved 42"]
      example_in_flight
    by blast
  from l in_flight_nothing_closes [of ?st example_parser example_providers CancelButton]
    in_flight_nothing_closes [of ?st example_parser example_providers CloseIcon]
    in_flight_nothing_closes [of ?st example_parser example_providers "EditField (\<lambda>r. defaultValues)"]
  show ?thesis by blast
qed

subsection \<open>A submit that the guard stops\<close>

text \<open>
  Claim C8, as the code has it. When the record is valid and the account, the network
  identifier or the session token is absent, a submit makes no create-event call and shows
  no notification, and the values of the form stay as they were; the loading flag ends
  cleared, and the active-dialog atom is emptied: the dialog is closed.
\<close>

theorem guarded_submit_closes_dialog:
  "accepts (schema U (form_values st)) \<and> value_of (schema U (form_values st)) = Some v \<and>
   (account env = None \<or> networkId env = None \<or> jwt env = None) \<longrightarrow>
   (\<exists>st'. handleSubmit U (onSubmit env api) st = Some st' \<and>
      calls st' = calls st \<and>
      snackbar st' = snackbar st \<and>
      form_values st' = form_values st \<and>
      loading st' = False \<and>
      activeDialog st' = None)"
proof (intro impI, elim conjE)
  assume ok: "accepts (schema U (form_values st))"
    and v: "value_of (schema U (form_values st)) = Some v"
    and absent: "account env = None \<or> networkId env = None \<or> jwt env = None"
  have "handleSubmit U (onSubmit env api) st = Some (onSubmit env api v st)"
    using ok v by (rule handleSubmit_valid)
  moreover have "onSubmit env api v st = st\<lparr>loading := False, activeDialog := None\<rparr>"
    by (simp add: onSubmit_def onSubmit_call_guarded [OF absent])
  ultimately show "\<exists>st'. handleSubmit U (onSubmit env api) st = Some st' \<and>
      calls st' = calls st \<and> snackbar st' = snackbar st \<and> form_values st' = form_values st \<and>
      loading st' = False \<and> activeDialog st' = None"
    by simp
qed

lemma guarded_run:
  "handleSubmit example_parser (onSubmit (example_providers\<lparr>networkId := None\<rparr>) service_creates)
     example_state = Some (example_state\<lparr>activeDialog := None\<rparr>)"
  by (subst example_run) (simp add: onSubmit_def onSubmit_call_guarded example_state_def)

theorem guarded_submit_closes_dialog_witness:
  "handleSubmit example_parser (onSubmit (example_providers\<lparr>networkId := None\<rparr>) service_creates)
     example_state = Some (example_state\<lparr>activeDialog := None\<rparr>) \<and>
   calls (example_state\<lparr>activeDialog := None\<rparr>) = calls example_state \<and>
   snackbar (example_state\<lparr>activeDialog := None\<rparr>) = snackbar example_state \<and>
   form_values (example_state\<lparr>activeDialog := None\<rparr>) = form_values example_state \<and>
   loading (example_state\<lparr>activeDialog := None\<rparr>) = False \<and>
   activeDialog (example_state\<lparr>activeDialog := None\<rparr>) = None"
  using guarded_submit_closes_dialog [of example_parser example_state example_values
      "example_providers\<lparr>networkId := None\<rparr>" service_creates] example_valid guarded_run
  by auto

text \<open>
  With the network identifier absent, the Create button is enabled all the same, and a
  click on it closes the dialog.
\<close>

lemma guarded_click:
  "\<not> create_disabled example_parser (example_providers\<lparr>networkId := None\<rparr>) example_state \<and>
   user_step example_parser (example_providers\<lparr>networkId := None\<rparr>) CreateButton example_state =
     example_state\<lparr>activeDialog := None\<rparr>"
proof -
  have e: "\<not> create_disabled example_parser (example_providers\<lparr>networkId := None\<rparr>) example_state"
    using example_valid
    by (simp add: create_disabled_def isValid_def) (simp add: example_providers_def example_state_def)
  have "handleSubmit example_parser (onSubmit_call (example_providers\<lparr>networkId := None\<rparr>)) example_state
      = Some (onSubmit_call (example_providers\<lparr>networkId := None\<rparr>) example_values example_state)"
    using example_valid by (simp add: handleSubmit_valid)
  then have "user_step example_parser (example_providers\<lparr>networkId := None\<rparr>) CreateButton example_state =
     example_state\<lparr>activeDialog := None\<rparr>"
    using e by (simp add: user_step_def onSubmit_call_guarded) (simp add: example_state_def)
  with e show ?thesis by simp
qed

text \<open>
  Claim C8, as it is stated, fails: with the network identifier absent (and the account
  connected and the user authenticated, so that the Create button is enabled), a submit of
  a valid record leaves the component in another state than before, the dialog being
  closed.
\<close>

theorem guarded_submit_is_no_noop:
  "handleSubmit example_parser (onSubmit (example_providers\<lparr>networkId := None\<rparr>) service_creates)
     example_state = Some (example_state\<lparr>activeDialog := None\<rparr>) \<and>
   user_step example_parser (example_providers\<lparr>networkId := None\<rparr>) CreateButton example_state =
     example_state\<lparr>activeDialog := None\<rparr> \<and>
   activeDialog example_state = Some DIALOG_MINT \<and>
   example_state\<lparr>activeDialog := None\<rparr> \<noteq> example_state"
proof -
  have "activeDialog (example_state\<lparr>activeDialog := None\<rparr>) \<noteq> activeDialog example_state"
    by (simp add: example_state_def)
  then have "example_state\<lparr>activeDialog := None\<rparr> \<noteq> example_state"
    by metis
  then show ?thesis
    by (simp add: guarded_run guarded_click) (simp add: example_state_def)
qed

end
